theory Spec2Isabelle
  imports Complex_Main
begin

section \<open>Data model (Entity.h, Terrain.h, Physics.h)\<close>

text \<open>
  The C++ type \<^verbatim>\<open>float\<close> is modelled by \<^typ>\<open>real\<close>: every value is a finite number
  and arithmetic is exact. Rounding, overflow to infinity and NaN are outside the model.
  The one exception is \<^verbatim>\<open>Lander::Update\<close>, whose specification is about exact amounts
  of fuel: there every arithmetic operation rounds its result to binary32.
  Where the source divides by a quantity that well-formed data can make zero (the width of
  a terrain segment), the model writes out what the comparison on the resulting NaN does.
  Output to \<^verbatim>\<open>std::cout\<close> is not modelled. A pointer that may be null is an
  \<^typ>\<open>'a option\<close>; the C++ type \<^verbatim>\<open>int\<close> is \<^typ>\<open>int\<close>, with the truncating
  division of C++ written out.

  A \<^verbatim>\<open>float[3]\<close> is the record \<open>float3\<close> (\<open>idx1 (mVelocity l)\<close> reads
  \<^verbatim>\<open>mVelocity[1]\<close>), a \<^verbatim>\<open>float[9]\<close> the record \<open>float9\<close>.
\<close>

record float3 =
  idx0 :: real
  idx1 :: real
  idx2 :: real

record float9 =
  vtx0 :: real
  vtx1 :: real
  vtx2 :: real
  vtx3 :: real
  vtx4 :: real
  vtx5 :: real
  vtx6 :: real
  vtx7 :: real
  vtx8 :: real

record Entity =
  mPosition :: float3
  mRotation :: float3
  mScale :: float3
  mActive :: bool
  mID :: int
  mName :: string

record Lander = Entity +
  mWidth :: real
  mHeight :: real
  mDepth :: real
  mMass :: real
  mVelocity :: float3
  mAcceleration :: float3
  mThrustLevel :: real
  mThrustActive :: bool
  mMaxThrustForce :: real
  mFuel :: real
  mMaxFuel :: real
  mFuelConsumptionRate :: real
  mLanded :: bool
  mCrashed :: bool

record TerrainSegment =
  x1 :: real
  y1 :: real
  x2 :: real
  y2 :: real
  isLandingPad :: bool

record TerrainTriangle =
  vertices :: float9
  normal :: float3
  isLandingPadTri :: bool

text \<open>
  The members \<^verbatim>\<open>mWidth\<close>, \<^verbatim>\<open>mHeight\<close>, \<^verbatim>\<open>mLength\<close> and \<^verbatim>\<open>mPixelsPerMeter\<close> of
  \<^verbatim>\<open>Terrain\<close> carry the suffix \<open>T\<close> here, since \<^verbatim>\<open>Lander\<close> and \<^verbatim>\<open>Physics\<close> have
  members of the same names; likewise \<^verbatim>\<open>TerrainTriangle::isLandingPad\<close>.
\<close>

record Terrain = Entity +
  mSegments2D :: "TerrainSegment list"
  mTriangles3D :: "TerrainTriangle list"
  mHeightData :: "real list"
  mWidthT :: int
  mHeightT :: int
  mLengthT :: int
  mPixelsPerMeterT :: real

text \<open>
  \<^verbatim>\<open>Physics\<close> points to the one lander and the one terrain; the model holds the
  pointees in place of the pointers. The rigid body of the lander belongs to the Bullet
  library, which is not part of the repository: its type is the parameter \<open>'rb\<close>.
\<close>

record 'rb Physics =
  mGravity :: real
  mAirDensity :: real
  mTimeScale :: real
  mPixelsPerMeter :: real
  m3DMode :: bool
  mLander :: "Lander option"
  mTerrain :: "Terrain option"
  mLanderRigidBody :: "'rb option"

datatype error = NullPointerDereference | DivisionByZero

section \<open>Entity and Lander (Entity.cpp)\<close>

definition SetPosition :: "Lander \<Rightarrow> real \<Rightarrow> real \<Rightarrow> real \<Rightarrow> Lander" where
  "SetPosition l x y z = l\<lparr>mPosition := \<lparr>idx0 = x, idx1 = y, idx2 = z\<rparr>\<rparr>"

definition SetRotation :: "Lander \<Rightarrow> real \<Rightarrow> real \<Rightarrow> real \<Rightarrow> Lander" where
  "SetRotation l x y z = l\<lparr>mRotation := \<lparr>idx0 = x, idx1 = y, idx2 = z\<rparr>\<rparr>"

text \<open>The state the constructor \<^verbatim>\<open>Lander::Lander\<close> builds, for the entity id \<open>n\<close>.\<close>

definition Lander_new :: "int \<Rightarrow> Lander" where
  "Lander_new n =
     \<lparr>mPosition = \<lparr>idx0 = 0, idx1 = 0, idx2 = 0\<rparr>,
      mRotation = \<lparr>idx0 = 0, idx1 = 0, idx2 = 0\<rparr>,
      mScale = \<lparr>idx0 = 1, idx1 = 1, idx2 = 1\<rparr>,
      mActive = True, mID = n, mName = ''Lander'',
      mWidth = 20, mHeight = 30, mDepth = 20, mMass = 1000,
      mVelocity = \<lparr>idx0 = 0, idx1 = 0, idx2 = 0\<rparr>,
      mAcceleration = \<lparr>idx0 = 0, idx1 = 0, idx2 = 0\<rparr>,
      mThrustLevel = 0, mThrustActive = False, mMaxThrustForce = 25000,
      mFuel = 1000, mMaxFuel = 1000, mFuelConsumptionRate = 10,
      mLanded = False, mCrashed = False\<rparr>"

subsection \<open>Arithmetic of binary32\<close>

text \<open>
  \<open>round32 x\<close> is the binary32 value nearest to \<open>x\<close>, ties going to the even
  significand, for results within the finite range of the format: the significand has
  24 bits, so the spacing of the values around \<open>x\<close> is \<open>2\<close> to the power
  \<open>\<lfloor>log\<^sub>2 |x|\<rfloor> - 23\<close>, and \<open>2\<close> to the power \<open>- 149\<close> below the least normal number
  \<open>2\<close> to the power \<open>- 126\<close>. A \<^verbatim>\<open>float\<close> operation of the source is the exact
  operation followed by \<open>round32\<close>.
\<close>

definition roundEven :: "real \<Rightarrow> int" where
  "roundEven x =
     (let n = \<lfloor>x\<rfloor>; d = x - of_int n
      in if d < 1/2 then n else if d > 1/2 then n + 1 else if even n then n else n + 1)"

definition ulpExp :: "real \<Rightarrow> int" where
  "ulpExp x = max \<lfloor>log 2 \<bar>x\<bar>\<rfloor> (- 126) - 23"

definition round32 :: "real \<Rightarrow> real" where
  "round32 x =
     sgn x * (of_int (roundEven (\<bar>x\<bar> / 2 powr of_int (ulpExp x))) * 2 powr of_int (ulpExp x))"

subsection \<open>Methods of the lander\<close>

text \<open>
  \<^verbatim>\<open>Lander::Update\<close>: fuel consumption while the thrust is active. The product
  \<^verbatim>\<open>mFuelConsumptionRate * mThrustLevel\<close>, the product \<^verbatim>\<open>consumptionRate * deltaTime\<close>
  and the subtraction from \<^verbatim>\<open>mFuel\<close> each round to binary32.
\<close>

definition Lander_Update :: "Lander \<Rightarrow> real \<Rightarrow> Lander" where
  "Lander_Update l deltaTime =
     (if mThrustActive l \<and> mFuel l > 0 then
        (let consumptionRate = round32 (mFuelConsumptionRate l * mThrustLevel l);
             l1 = l\<lparr>mFuel := round32 (mFuel l - round32 (consumptionRate * deltaTime))\<rparr>;
             l2 = l1\<lparr>mFuel := max 0 (mFuel l1)\<rparr>
         in if mFuel l2 \<le> 0 then l2\<lparr>mThrustActive := False, mThrustLevel := 0\<rparr>
            else l2)
      else l)"

text \<open>\<^verbatim>\<open>Lander::ApplyThrust\<close>.\<close>

definition Lander_ApplyThrust :: "Lander \<Rightarrow> real \<Rightarrow> Lander" where
  "Lander_ApplyThrust l amount =
     (if mFuel l \<le> 0 then l\<lparr>mThrustActive := False, mThrustLevel := 0\<rparr>
      else (let l1 = l\<lparr>mThrustLevel := max 0 (min 1 amount)\<rparr>
            in l1\<lparr>mThrustActive := (mThrustLevel l1 > 0)\<rparr>))"

text \<open>\<^verbatim>\<open>Lander::Reset\<close>.\<close>

definition Lander_Reset :: "Lander \<Rightarrow> Lander" where
  "Lander_Reset l =
     (let l1 = SetPosition l 0 5 0;
          l2 = SetRotation l1 0 0 0;
          l3 = l2\<lparr>mVelocity := \<lparr>idx0 = 0, idx1 = 0, idx2 = 0\<rparr>,
                   mAcceleration := \<lparr>idx0 = 0, idx1 = 0, idx2 = 0\<rparr>\<rparr>;
          l4 = l3\<lparr>mThrustLevel := 0, mThrustActive := False\<rparr>;
          l5 = l4\<lparr>mFuel := mMaxFuel l4\<rparr>
      in l5\<lparr>mLanded := False, mCrashed := False, mActive := True\<rparr>)"

section \<open>Terrain, 2D (Terrain.cpp)\<close>

text \<open>
  The test \<^verbatim>\<open>screenLanderX >= segment.x1 && screenLanderX <= segment.x2\<close> of both
  2D queries.
\<close>

definition inSegmentSpan :: "TerrainSegment \<Rightarrow> real \<Rightarrow> bool" where
  "inSegmentSpan segment screenLanderX \<longleftrightarrow>
     screenLanderX \<ge> x1 segment \<and> screenLanderX \<le> x2 segment"

text \<open>
  The body of the loop of \<^verbatim>\<open>Terrain::CheckCollision2D\<close> for a segment whose span holds
  \<open>screenLanderX\<close>: the terrain height in meters under the lander. On a segment of
  width zero the source computes \<^verbatim>\<open>0.0f / 0.0f\<close>, a NaN that makes the comparison
  \<^verbatim>\<open>landerBottomY <= terrainHeightMeters\<close> false: the result is \<open>None\<close>.
\<close>

definition terrainHeightMeters :: "Terrain \<Rightarrow> TerrainSegment \<Rightarrow> real \<Rightarrow> real option" where
  "terrainHeightMeters t segment screenLanderX =
     (if x2 segment - x1 segment = 0 then None
      else (let segmentPct = (screenLanderX - x1 segment) / (x2 segment - x1 segment);
                segmentY = y1 segment + segmentPct * (y2 segment - y1 segment)
            in Some ((real_of_int (mHeightT t) - segmentY) / mPixelsPerMeterT t)))"

text \<open>
  The loop over the segments: the first segment that holds \<open>screenLanderX\<close> and lies at
  or above the bottom of the lander ends the search with its height.
\<close>

fun collisionScan :: "Terrain \<Rightarrow> real \<Rightarrow> real \<Rightarrow> TerrainSegment list \<Rightarrow> real option" where
  "collisionScan t screenLanderX landerBottomY [] = None"
| "collisionScan t screenLanderX landerBottomY (segment # rest) =
     (if inSegmentSpan segment screenLanderX then
        (case terrainHeightMeters t segment screenLanderX of
           Some h \<Rightarrow>
             if landerBottomY \<le> h then Some h
             else collisionScan t screenLanderX landerBottomY rest
         | None \<Rightarrow> collisionScan t screenLanderX landerBottomY rest)
      else collisionScan t screenLanderX landerBottomY rest)"

text \<open>
  \<^verbatim>\<open>Terrain::CheckCollision2D\<close>. The reference parameter \<^verbatim>\<open>collisionHeight\<close> goes in
  and comes out: the result is the returned boolean and the value the variable holds
  afterwards.
\<close>

definition landerBottomY :: "Terrain \<Rightarrow> Lander \<Rightarrow> real" where
  "landerBottomY t lander =
     (let landerHeight = mHeight lander / mPixelsPerMeterT t
      in idx1 (mPosition lander) - landerHeight / 2)"

definition screenLanderX :: "Terrain \<Rightarrow> Lander \<Rightarrow> real" where
  "screenLanderX t lander = idx0 (mPosition lander) * mPixelsPerMeterT t"

definition CheckCollision2D :: "Terrain \<Rightarrow> Lander option \<Rightarrow> real \<Rightarrow> bool \<times> real" where
  "CheckCollision2D t lander collisionHeight =
     (case lander of
        None \<Rightarrow> (False, collisionHeight)
      | Some l \<Rightarrow>
          (case collisionScan t (screenLanderX t l) (landerBottomY t l) (mSegments2D t) of
             Some h \<Rightarrow> (True, h)
           | None \<Rightarrow> (False, collisionHeight)))"

text \<open>
  The loop of \<^verbatim>\<open>Terrain::IsValidLanding2D\<close>: it returns true at the first landing-pad
  segment that holds \<open>screenLanderX\<close> if both speeds are safe, and goes on otherwise.
\<close>

fun landingScan :: "real \<Rightarrow> float3 \<Rightarrow> TerrainSegment list \<Rightarrow> bool" where
  "landingScan screenX landerVel [] = False"
| "landingScan screenX landerVel (segment # rest) =
     (if isLandingPad segment \<and> screenX \<ge> x1 segment \<and> screenX \<le> x2 segment then
        (let safeVerticalVelocity = 2;
             safeHorizontalVelocity = 1;
             safeVertical = (\<bar>idx1 landerVel\<bar> \<le> safeVerticalVelocity);
             safeHorizontal = (\<bar>idx0 landerVel\<bar> \<le> safeHorizontalVelocity)
         in if safeVertical \<and> safeHorizontal then True
            else landingScan screenX landerVel rest)
      else landingScan screenX landerVel rest)"

definition IsValidLanding2D :: "Terrain \<Rightarrow> Lander option \<Rightarrow> bool" where
  "IsValidLanding2D t lander =
     (case lander of
        None \<Rightarrow> False
      | Some l \<Rightarrow> landingScan (screenLanderX t l) (mVelocity l) (mSegments2D t))"

text \<open>The state the constructor \<^verbatim>\<open>Terrain::Terrain\<close> builds, for the entity id \<open>n\<close>.\<close>

definition Terrain_new :: "int \<Rightarrow> Terrain" where
  "Terrain_new n =
     \<lparr>mPosition = \<lparr>idx0 = 0, idx1 = 0, idx2 = 0\<rparr>,
      mRotation = \<lparr>idx0 = 0, idx1 = 0, idx2 = 0\<rparr>,
      mScale = \<lparr>idx0 = 1, idx1 = 1, idx2 = 1\<rparr>,
      mActive = True, mID = n, mName = ''Terrain'',
      mSegments2D = [], mTriangles3D = [], mHeightData = [],
      mWidthT = 800, mHeightT = 600, mLengthT = 800, mPixelsPerMeterT = 20\<rparr>"

subsection \<open>Generation of the 2D terrain\<close>

text \<open>
  Division of C++ \<^verbatim>\<open>int\<close>s truncates towards zero; a zero divisor is undefined
  behaviour, which \<open>Generate2D\<close> reports as the error \<open>DivisionByZero\<close>. The dimensions are
  taken small enough for the arithmetic of \<open>Generate2D\<close> to stay within \<^verbatim>\<open>int\<close>.
\<close>

definition cdiv :: "int \<Rightarrow> int \<Rightarrow> int" where
  "cdiv a b = sgn a * sgn b * (\<bar>a\<bar> div \<bar>b\<bar>)"

text \<open>
  The first loop of \<^verbatim>\<open>Terrain::Generate2D\<close>. The calls of \<^verbatim>\<open>rand()\<close> are the stream
  \<open>rnd\<close>: \<open>rnd k\<close> is the (non-negative) value of the \<open>k\<close>-th call.
\<close>

function genSegments ::
  "int \<Rightarrow> int \<Rightarrow> int \<Rightarrow> int \<Rightarrow> (nat \<Rightarrow> nat) \<Rightarrow> nat \<Rightarrow> TerrainSegment list
     \<Rightarrow> TerrainSegment list" where
  "genSegments i segmentCount width baseHeight rnd k segs =
     (if i < segmentCount then
        (let segment =
               \<lparr>x1 = real_of_int (i * cdiv width segmentCount),
                y1 = real_of_int (baseHeight - int (rnd k mod 20)),
                x2 = real_of_int ((i + 1) * cdiv width segmentCount),
                y2 = real_of_int (baseHeight - int (rnd (k + 1) mod 20)),
                isLandingPad = False\<rparr>
         in genSegments (i + 1) segmentCount width baseHeight rnd (k + 2) (segs @ [segment]))
      else segs)"
  by pat_completeness auto
termination
  by (relation "measure (\<lambda>(i, segmentCount, width, baseHeight, rnd, k, segs).
        nat (segmentCount - i))") auto

text \<open>
  The second loop: \<^verbatim>\<open>for (int i = startSegment; i <= endSegment && i < segmentCount; i++)\<close>.
\<close>

function markLandingPad ::
  "int \<Rightarrow> int \<Rightarrow> int \<Rightarrow> int \<Rightarrow> TerrainSegment list \<Rightarrow> TerrainSegment list" where
  "markLandingPad i endSegment segmentCount baseHeight segs =
     (if i \<le> endSegment \<and> i < segmentCount then
        markLandingPad (i + 1) endSegment segmentCount baseHeight
          (if i \<ge> 0 \<and> i < int (length segs) then
             segs[nat i := (segs ! nat i)
                    \<lparr>isLandingPad := True,
                     y2 := real_of_int baseHeight, y1 := real_of_int baseHeight\<rparr>]
           else segs)
      else segs)"
  by pat_completeness auto
termination
  by (relation "measure (\<lambda>(i, endSegment, segmentCount, baseHeight, segs).
        nat (segmentCount - i))") auto

definition Generate2D :: "Terrain \<Rightarrow> int \<Rightarrow> int \<Rightarrow> (nat \<Rightarrow> nat) \<Rightarrow> error + Terrain" where
  "Generate2D t width height rnd =
     (let t1 = t\<lparr>mWidthT := width, mHeightT := height\<rparr>;
          t2 = t1\<lparr>mSegments2D := []\<rparr>;
          baseHeight = height - 50;
          segmentCount = 10;
          t3 = t2\<lparr>mSegments2D := genSegments 0 segmentCount width baseHeight rnd 0 []\<rparr>;
          centerX = cdiv width 2;
          landingPadWidth = cdiv width segmentCount * 2;
          landingPadStart = centerX - cdiv landingPadWidth 2
      in if cdiv width segmentCount = 0 then Inl DivisionByZero
         else (let startSegment = cdiv landingPadStart (cdiv width segmentCount);
                   endSegment =
                     cdiv (landingPadStart + landingPadWidth) (cdiv width segmentCount)
               in Inr (t3\<lparr>mSegments2D :=
                     markLandingPad startSegment endSegment segmentCount baseHeight
                       (mSegments2D t3)\<rparr>)))"

section \<open>Terrain, 3D (Terrain.cpp)\<close>

text \<open>
  The bounding-box test of both 3D queries, on the x and z coordinates of the three
  vertices; \<^verbatim>\<open>std::min({a, b, c})\<close> is the least of the three.
\<close>

definition inTriangleBounds :: "TerrainTriangle \<Rightarrow> real \<Rightarrow> real \<Rightarrow> bool" where
  "inTriangleBounds triangle landerX landerZ \<longleftrightarrow>
     (let v = vertices triangle
      in landerX \<ge> min (vtx0 v) (min (vtx3 v) (vtx6 v)) \<and>
         landerX \<le> max (vtx0 v) (max (vtx3 v) (vtx6 v)) \<and>
         landerZ \<ge> min (vtx2 v) (min (vtx5 v) (vtx8 v)) \<and>
         landerZ \<le> max (vtx2 v) (max (vtx5 v) (vtx8 v)))"

fun collisionScan3D :: "float3 \<Rightarrow> real \<Rightarrow> TerrainTriangle list \<Rightarrow> real option" where
  "collisionScan3D landerPos landerHeight [] = None"
| "collisionScan3D landerPos landerHeight (triangle # rest) =
     (if inTriangleBounds triangle (idx0 landerPos) (idx2 landerPos) then
        (let v = vertices triangle;
             avgHeight = (vtx1 v + vtx4 v + vtx7 v) / 3
         in if idx1 landerPos + landerHeight / 2 \<ge> avgHeight then Some avgHeight
            else collisionScan3D landerPos landerHeight rest)
      else collisionScan3D landerPos landerHeight rest)"

text \<open>
  \<^verbatim>\<open>Terrain::CheckCollision3D\<close> and \<^verbatim>\<open>Terrain::IsValidLanding3D\<close> read the lander
  through the pointer without testing it: on a null pointer the behaviour is undefined,
  the error \<open>NullPointerDereference\<close> of the model.
\<close>

definition CheckCollision3D :: "Terrain \<Rightarrow> Lander option \<Rightarrow> real \<Rightarrow> error + bool \<times> real" where
  "CheckCollision3D t lander collisionHeight =
     (case lander of
        None \<Rightarrow> Inl NullPointerDereference
      | Some l \<Rightarrow>
          (case collisionScan3D (mPosition l) (mHeight l) (mTriangles3D t) of
             Some h \<Rightarrow> Inr (True, h)
           | None \<Rightarrow> Inr (False, collisionHeight)))"

fun landingScan3D :: "float3 \<Rightarrow> float3 \<Rightarrow> TerrainTriangle list \<Rightarrow> bool" where
  "landingScan3D landerPos landerVel [] = False"
| "landingScan3D landerPos landerVel (triangle # rest) =
     (if \<not> isLandingPadTri triangle then landingScan3D landerPos landerVel rest
      else if inTriangleBounds triangle (idx0 landerPos) (idx2 landerPos) then
        (let safeVelocity = 2
         in if \<bar>idx0 landerVel\<bar> \<le> safeVelocity \<and>
               idx1 landerVel \<ge> 0 \<and> idx1 landerVel \<le> safeVelocity \<and>
               \<bar>idx2 landerVel\<bar> \<le> safeVelocity
            then True
            else landingScan3D landerPos landerVel rest)
      else landingScan3D landerPos landerVel rest)"

definition IsValidLanding3D :: "Terrain \<Rightarrow> Lander option \<Rightarrow> error + bool" where
  "IsValidLanding3D t lander =
     (case lander of
        None \<Rightarrow> Inl NullPointerDereference
      | Some l \<Rightarrow> Inr (landingScan3D (mPosition l) (mVelocity l) (mTriangles3D t)))"

section \<open>Physics, 2D mode (Physics.cpp)\<close>

text \<open>The state the constructor \<^verbatim>\<open>Physics::Physics\<close> builds.\<close>

definition Physics_new :: "'rb Physics" where
  "Physics_new =
     \<lparr>mGravity = 162 / 100, mAirDensity = 0, mTimeScale = 1, mPixelsPerMeter = 20,
      m3DMode = False, mLander = None, mTerrain = None, mLanderRigidBody = None\<rparr>"

text \<open>
  The block of \<^verbatim>\<open>Physics::Update2D\<close> guarded by
  \<^verbatim>\<open>!mLander->IsLanded() && !mLander->IsCrashed()\<close>: gravity, thrust, and the Euler step
  of the position. \<^verbatim>\<open>SetPosition(newX, newY)\<close> passes the default \<open>z = 0\<close>.
\<close>

definition integrate2D :: "'rb Physics \<Rightarrow> Lander \<Rightarrow> real \<Rightarrow> Lander" where
  "integrate2D p l scaledDeltaTime =
     (let l1 = l\<lparr>mVelocity := (mVelocity l)
                 \<lparr>idx1 := idx1 (mVelocity l) - mGravity p * scaledDeltaTime\<rparr>\<rparr>;
          l2 = (if mThrustActive l1 then
                  (let rotZ = idx2 (mRotation l1) * (pi / 180);
                       thrustX = - sin rotZ;
                       thrustY = cos rotZ;
                       maxThrust = mMass l1 * 2.5 * mGravity p;
                       thrustAccel = (maxThrust * mThrustLevel l1) / mMass l1
                   in l1\<lparr>mVelocity :=
                        \<lparr>idx0 = idx0 (mVelocity l1) + thrustX * thrustAccel * scaledDeltaTime,
                         idx1 = idx1 (mVelocity l1) + thrustY * thrustAccel * scaledDeltaTime,
                         idx2 = idx2 (mVelocity l1)\<rparr>\<rparr>)
                else l1);
          newX = idx0 (mPosition l2) + idx0 (mVelocity l2) * scaledDeltaTime;
          newY = idx1 (mPosition l2) + idx1 (mVelocity l2) * scaledDeltaTime
      in SetPosition l2 newX newY 0)"

text \<open>
  \<^verbatim>\<open>Physics::CheckCollisions2D\<close>: the returned boolean and the state afterwards.
\<close>

definition CheckCollisions2D :: "'rb Physics \<Rightarrow> bool \<times> 'rb Physics" where
  "CheckCollisions2D p =
     (case mLander p of
        None \<Rightarrow> (False, p)
      | Some l \<Rightarrow>
          (case mTerrain p of
             None \<Rightarrow> (False, p)
           | Some t \<Rightarrow>
               if mLanded l \<or> mCrashed l then (False, p)
               else (case CheckCollision2D t (Some l) 0 of
                       (True, collisionHeight) \<Rightarrow>
                         (let landerHeight = mHeight l / mPixelsPerMeter p;
                              l1 = SetPosition l (idx0 (mPosition l))
                                     (collisionHeight + landerHeight / 2) 0;
                              l2 = (if IsValidLanding2D t (Some l1) then
                                      (l1\<lparr>mLanded := True\<rparr>)
                                        \<lparr>mVelocity := (mVelocity l1)\<lparr>idx0 := 0, idx1 := 0\<rparr>\<rparr>
                                    else
                                      (l1\<lparr>mCrashed := True\<rparr>)
                                        \<lparr>mVelocity := (mVelocity l1)\<lparr>idx0 := 0, idx1 := 0\<rparr>\<rparr>)
                          in (True, p\<lparr>mLander := Some l2\<rparr>))
                     | (False, collisionHeight) \<Rightarrow> (False, p))))"

text \<open>\<^verbatim>\<open>Physics::Update2D\<close>.\<close>

definition Update2D :: "'rb Physics \<Rightarrow> real \<Rightarrow> 'rb Physics" where
  "Update2D p deltaTime =
     (case mLander p of
        None \<Rightarrow> p
      | Some l \<Rightarrow>
          (case mTerrain p of
             None \<Rightarrow> p
           | Some t \<Rightarrow>
               (let scaledDeltaTime = deltaTime * mTimeScale p;
                    p1 = (if \<not> mLanded l \<and> \<not> mCrashed l
                          then p\<lparr>mLander := Some (integrate2D p l scaledDeltaTime)\<rparr>
                          else p)
                in snd (CheckCollisions2D p1))))"

text \<open>
  \<^verbatim>\<open>Physics::Update\<close>. The branch of the 3D mode steps the worlds of the Bullet library
  and reads the lander back from them; it is the parameter \<open>step3D\<close>.
\<close>

definition Physics_Update ::
  "('rb Physics \<Rightarrow> real \<Rightarrow> 'rb Physics) \<Rightarrow> 'rb Physics \<Rightarrow> real \<Rightarrow> 'rb Physics" where
  "Physics_Update step3D p deltaTime =
     (let scaledDeltaTime = deltaTime * mTimeScale p
      in if m3DMode p then step3D p scaledDeltaTime
         else Update2D p scaledDeltaTime)"

text \<open>
  \<^verbatim>\<open>Physics::ApplyThrust\<close>. Two operations of the Bullet library are parameters:
  \<open>applyCentralForce\<close>, the effect of \<^verbatim>\<open>btRigidBody::applyCentralForce\<close> on the rigid
  body, and \<open>rotateUp\<close>, the unit vector \<open>(0, 1, 0)\<close> turned by the rotation matrix of the
  three Euler angles (\<^verbatim>\<open>setEulerZYX(rotZ, rotY, rotX)\<close>). The result is the state of
  \<^verbatim>\<open>Physics\<close> and the lander behind the pointer afterwards.
\<close>

definition Physics_ApplyThrust ::
  "('rb \<Rightarrow> float3 \<Rightarrow> 'rb) \<Rightarrow> (real \<Rightarrow> real \<Rightarrow> real \<Rightarrow> float3) \<Rightarrow> 'rb Physics
     \<Rightarrow> Lander option \<Rightarrow> real \<Rightarrow> 'rb Physics \<times> Lander option" where
  "Physics_ApplyThrust applyCentralForce rotateUp p lander deltaTime =
     (case lander of
        None \<Rightarrow> (p, lander)
      | Some l \<Rightarrow>
          (case mLanderRigidBody p of
             None \<Rightarrow> (p, lander)
           | Some rb \<Rightarrow>
               if \<not> mThrustActive l then (p, lander)
               else
                 (let maxThrust = mMass l * 2.5 * mGravity p;
                      thrustForce = maxThrust * mThrustLevel l;
                      rotation = mRotation l;
                      thrustDirection =
                        (if m3DMode p then
                           (let rotX = idx0 rotation * (pi / 180);
                                rotY = idx1 rotation * (pi / 180);
                                rotZ = idx2 rotation * (pi / 180)
                            in rotateUp rotZ rotY rotX)
                         else
                           (let rotZ = idx2 rotation * (pi / 180)
                            in \<lparr>idx0 = sin rotZ, idx1 = cos rotZ, idx2 = 0\<rparr>));
                      thrustVector =
                        \<lparr>idx0 = idx0 thrustDirection * thrustForce,
                         idx1 = idx1 thrustDirection * thrustForce,
                         idx2 = idx2 thrustDirection * thrustForce\<rparr>;
                      p1 = p\<lparr>mLanderRigidBody := Some (applyCentralForce rb thrustVector)\<rparr>;
                      fuelConsumptionRate = 10;
                      fuelUsed = fuelConsumptionRate * mThrustLevel l * deltaTime;
                      currentFuel = mFuel l;
                      newFuel = max 0 (currentFuel - fuelUsed)
                  in if currentFuel > 0 \<and> newFuel \<le> 0
                     then (p1, Some (Lander_ApplyThrust l 0))
                     else (p1, lander))))"

section \<open>Calls of the driver into the physics engine\<close>

text \<open>
  The operations of \<^verbatim>\<open>Physics\<close> that advance or inspect the simulation in 2D mode, as
  the driver may issue them in any order: \<^verbatim>\<open>Update(deltaTime)\<close>,
  \<^verbatim>\<open>Update2D(deltaTime)\<close> and \<^verbatim>\<open>CheckCollisions2D()\<close> (whose boolean is dropped).
  \<open>landedAndCrashed\<close> reads both flags of the registered lander.
\<close>

datatype PhysicsCall = CallUpdate real | CallUpdate2D real | CallCheckCollisions2D

fun runCall :: "('rb Physics \<Rightarrow> real \<Rightarrow> 'rb Physics) \<Rightarrow> 'rb Physics \<Rightarrow> PhysicsCall \<Rightarrow> 'rb Physics" where
  "runCall step3D p (CallUpdate deltaTime) = Physics_Update step3D p deltaTime"
| "runCall step3D p (CallUpdate2D deltaTime) = Update2D p deltaTime"
| "runCall step3D p CallCheckCollisions2D = snd (CheckCollisions2D p)"

fun runCalls :: "('rb Physics \<Rightarrow> real \<Rightarrow> 'rb Physics) \<Rightarrow> 'rb Physics \<Rightarrow> PhysicsCall list \<Rightarrow> 'rb Physics" where
  "runCalls step3D p [] = p"
| "runCalls step3D p (c # cs) = runCalls step3D (runCall step3D p c) cs"

definition landedAndCrashed :: "'rb Physics \<Rightarrow> bool" where
  "landedAndCrashed p = (case mLander p of None \<Rightarrow> False | Some l \<Rightarrow> mLanded l \<and> mCrashed l)"

text \<open>
  The driver calls \<^verbatim>\<open>Lander::Update\<close> once per frame: a sequence of such calls, one per
  delta-time of the list.
\<close>

fun Lander_Updates :: "Lander \<Rightarrow> real list \<Rightarrow> Lander" where
  "Lander_Updates l [] = l"
| "Lander_Updates l (deltaTime # rest) = Lander_Updates (Lander_Update l deltaTime) rest"

section \<open>Concrete states for the scenarios of the specification\<close>

text \<open>
  A terrain of the default size with a flat landing-pad segment at height 0 m from
  0 m to 10 m and a sloped segment from 10 m to 20 m, and a freshly constructed lander
  placed at \<open>(x, y)\<close> meters with velocity \<open>(vx, vy)\<close>.
\<close>

definition scenarioTerrain :: Terrain where
  "scenarioTerrain =
     (Terrain_new 1)\<lparr>mSegments2D :=
        [\<lparr>x1 = 0, y1 = 600, x2 = 200, y2 = 600, isLandingPad = True\<rparr>,
         \<lparr>x1 = 200, y1 = 590, x2 = 400, y2 = 580, isLandingPad = False\<rparr>]\<rparr>"

definition scenarioLander :: "real \<Rightarrow> real \<Rightarrow> real \<Rightarrow> real \<Rightarrow> Lander" where
  "scenarioLander x y vx vy =
     (SetPosition (Lander_new 0) x y 0)\<lparr>mVelocity := \<lparr>idx0 = vx, idx1 = vy, idx2 = 0\<rparr>\<rparr>"

text \<open>The engine as constructed, with the lander and the scenario terrain registered.\<close>

definition scenarioPhysics :: "Lander \<Rightarrow> unit Physics" where
  "scenarioPhysics l = Physics_new\<lparr>mLander := Some l, mTerrain := Some scenarioTerrain\<rparr>"

text \<open>
  A 3D terrain of two triangles over \<open>0 \<le> z \<le> 2\<close>: an ordinary one over
  \<open>0 \<le> x \<le> 2\<close> and a landing-pad one over \<open>2 \<le> x \<le> 4\<close>.
\<close>

definition scenarioTerrain3D :: Terrain where
  "scenarioTerrain3D =
     (Terrain_new 1)\<lparr>mTriangles3D :=
        [\<lparr>vertices = \<lparr>vtx0 = 0, vtx1 = 1, vtx2 = 0, vtx3 = 2, vtx4 = 1, vtx5 = 0,
                       vtx6 = 0, vtx7 = 1, vtx8 = 2\<rparr>,
          normal = \<lparr>idx0 = 0, idx1 = 1, idx2 = 0\<rparr>, isLandingPadTri = False\<rparr>,
         \<lparr>vertices = \<lparr>vtx0 = 2, vtx1 = 1, vtx2 = 0, vtx3 = 4, vtx4 = 1, vtx5 = 0,
                       vtx6 = 2, vtx7 = 1, vtx8 = 2\<rparr>,
          normal = \<lparr>idx0 = 0, idx1 = 1, idx2 = 0\<rparr>, isLandingPadTri = True\<rparr>]\<rparr>"

lemmas scenario_defs =
  scenarioTerrain_def scenarioLander_def Terrain_new_def Lander_new_def SetPosition_def

lemmas physics_defs = scenarioPhysics_def Physics_new_def

section \<open>Properties of the 2D terrain queries\<close>

lemma landingScan_iff:
  "landingScan sx v segs \<longleftrightarrow>
     (\<exists>s \<in> set segs. isLandingPad s \<and> x1 s \<le> sx \<and> sx \<le> x2 s)
       \<and> \<bar>idx1 v\<bar> \<le> 2 \<and> \<bar>idx0 v\<bar> \<le> 1"
  by (induction segs) (auto simp: Let_def)

lemma collisionScan_Some:
  "collisionScan t sx by segs = Some h \<Longrightarrow>
     \<exists>s \<in> set segs. inSegmentSpan s sx \<and> terrainHeightMeters t s sx = Some h \<and> by \<le> h"
  by (induction segs) (auto split: if_splits option.splits)

lemma collisionScan_None:
  "collisionScan t sx by segs = None \<longleftrightarrow>
     \<not> (\<exists>s \<in> set segs. \<exists>h. inSegmentSpan s sx \<and> terrainHeightMeters t s sx = Some h \<and> by \<le> h)"
  by (induction segs) (auto split: if_splits option.splits)

text \<open>
  C1. \<^verbatim>\<open>IsValidLanding2D\<close> on a lander returns true exactly when some landing-pad
  segment holds the lander's x-coordinate in screen pixels and the speeds satisfy
  \<open>|v\<^sub>y| \<le> 2\<close> and \<open>|v\<^sub>x| \<le> 1\<close>; with no such segment the result is false. The result is
  a function of the terrain and the lander alone, and no state comes out of the call, so
  a repeated call on unchanged state gives the same boolean.
\<close>

theorem IsValidLanding2D_iff:
  "(IsValidLanding2D t (Some l) \<longleftrightarrow>
      (\<exists>s \<in> set (mSegments2D t).
          isLandingPad s \<and> x1 s \<le> idx0 (mPosition l) * mPixelsPerMeterT t
            \<and> idx0 (mPosition l) * mPixelsPerMeterT t \<le> x2 s)
        \<and> \<bar>idx1 (mVelocity l)\<bar> \<le> 2 \<and> \<bar>idx0 (mVelocity l)\<bar> \<le> 1)
   \<and> ((\<forall>s \<in> set (mSegments2D t).
          \<not> (isLandingPad s \<and> x1 s \<le> idx0 (mPosition l) * mPixelsPerMeterT t
            \<and> idx0 (mPosition l) * mPixelsPerMeterT t \<le> x2 s))
        \<longrightarrow> \<not> IsValidLanding2D t (Some l))"
  by (auto simp: IsValidLanding2D_def screenLanderX_def landingScan_iff)

theorem IsValidLanding2D_iff_witness:
  "IsValidLanding2D scenarioTerrain (Some (scenarioLander 5 (1/2) 0 (-1)))
   \<and> \<not> IsValidLanding2D scenarioTerrain (Some (scenarioLander 5 (1/2) 0 (-5)))
   \<and> \<not> IsValidLanding2D scenarioTerrain (Some (scenarioLander 15 1 0 (-1)))"
  using IsValidLanding2D_iff [of scenarioTerrain "scenarioLander 5 (1/2) 0 (-1)"]
        IsValidLanding2D_iff [of scenarioTerrain "scenarioLander 5 (1/2) 0 (-5)"]
        IsValidLanding2D_iff [of scenarioTerrain "scenarioLander 15 1 0 (-1)"]
  by (simp add: scenario_defs)

text \<open>
  C2. On a lander and a terrain whose conversion factor is not zero,
  \<^verbatim>\<open>CheckCollision2D\<close> returns true exactly when some segment holds the lander's
  x-coordinate in screen pixels and the bottom of the lander (\<open>position.y\<close> minus half
  its height in meters) is at or below the segment's y, interpolated linearly at that x
  and converted to meters. When it returns true, \<^verbatim>\<open>collisionHeight\<close> is that height
  for such a segment; when it returns false, \<^verbatim>\<open>collisionHeight\<close> keeps its value. The
  interpolation exists on a segment with \<open>x1 \<noteq> x2\<close> only.
\<close>

theorem CheckCollision2D_iff:
  assumes "mPixelsPerMeterT t \<noteq> 0"
  shows
  "(fst (CheckCollision2D t (Some l) c) \<longleftrightarrow>
      (\<exists>s \<in> set (mSegments2D t).
          x1 s \<le> idx0 (mPosition l) * mPixelsPerMeterT t
        \<and> idx0 (mPosition l) * mPixelsPerMeterT t \<le> x2 s
        \<and> x1 s \<noteq> x2 s
        \<and> idx1 (mPosition l) - mHeight l / mPixelsPerMeterT t / 2
            \<le> (real_of_int (mHeightT t)
                  - (y1 s + (idx0 (mPosition l) * mPixelsPerMeterT t - x1 s) / (x2 s - x1 s)
                             * (y2 s - y1 s)))
               / mPixelsPerMeterT t))
   \<and> (fst (CheckCollision2D t (Some l) c) \<longrightarrow>
      (\<exists>s \<in> set (mSegments2D t).
          x1 s \<le> idx0 (mPosition l) * mPixelsPerMeterT t
        \<and> idx0 (mPosition l) * mPixelsPerMeterT t \<le> x2 s
        \<and> x1 s \<noteq> x2 s
        \<and> snd (CheckCollision2D t (Some l) c)
            = (real_of_int (mHeightT t)
                  - (y1 s + (idx0 (mPosition l) * mPixelsPerMeterT t - x1 s) / (x2 s - x1 s)
                             * (y2 s - y1 s)))
               / mPixelsPerMeterT t
        \<and> idx1 (mPosition l) - mHeight l / mPixelsPerMeterT t / 2
            \<le> snd (CheckCollision2D t (Some l) c)))
   \<and> (\<not> fst (CheckCollision2D t (Some l) c) \<longrightarrow> snd (CheckCollision2D t (Some l) c) = c)"
proof (cases "collisionScan t (screenLanderX t l) (landerBottomY t l) (mSegments2D t)")
  case None
  then show ?thesis
    using collisionScan_None [of t "screenLanderX t l" "landerBottomY t l" "mSegments2D t"]
    by (auto simp: CheckCollision2D_def inSegmentSpan_def terrainHeightMeters_def
          screenLanderX_def landerBottomY_def Let_def)
next
  case (Some h)
  from collisionScan_Some [OF Some] show ?thesis
    using Some
    by (auto simp: CheckCollision2D_def inSegmentSpan_def terrainHeightMeters_def
          screenLanderX_def landerBottomY_def Let_def split: if_splits)
qed

theorem CheckCollision2D_iff_witness:
  "CheckCollision2D scenarioTerrain (Some (scenarioLander 5 (1/2) 0 (-1))) 0 = (True, 0)
   \<and> CheckCollision2D scenarioTerrain (Some (scenarioLander 5 3 0 (-1))) 7 = (False, 7)"
proof -
  have ppm: "mPixelsPerMeterT scenarioTerrain \<noteq> 0"
    by (simp add: scenario_defs)
  show ?thesis
    using CheckCollision2D_iff [OF ppm, of "scenarioLander 5 (1/2) 0 (-1)" 0]
          CheckCollision2D_iff [OF ppm, of "scenarioLander 5 3 0 (-1)" 7]
    by (simp add: scenario_defs prod_eq_iff)
qed

section \<open>Properties of the 2D physics step\<close>

lemma IsValidLanding2D_SetPosition:
  "IsValidLanding2D t (Some (SetPosition l (idx0 (mPosition l)) y z)) = IsValidLanding2D t (Some l)"
  by (simp add: IsValidLanding2D_def SetPosition_def screenLanderX_def)

lemma CheckCollisions2D_frame:
  "m3DMode (snd (CheckCollisions2D p)) = m3DMode p"
  by (auto simp: CheckCollisions2D_def Let_def split: option.splits prod.splits bool.splits)

lemma CheckCollisions2D_terminal_id:
  "mLander p = Some l \<Longrightarrow> mLanded l \<or> mCrashed l \<Longrightarrow> CheckCollisions2D p = (False, p)"
  by (auto simp: CheckCollisions2D_def split: option.splits)

lemma Update2D_terminal_id:
  "mLander p = Some l \<Longrightarrow> mLanded l \<or> mCrashed l \<Longrightarrow> Update2D p dt = p"
  by (auto simp: Update2D_def Let_def CheckCollisions2D_terminal_id split: option.splits)

lemma CheckCollisions2D_landedAndCrashed:
  "\<not> landedAndCrashed p \<Longrightarrow> \<not> landedAndCrashed (snd (CheckCollisions2D p))"
  by (auto simp: CheckCollisions2D_def landedAndCrashed_def Let_def SetPosition_def
      split: option.splits prod.splits bool.splits)

lemma integrate2D_flags:
  "mLanded (integrate2D p l d) = mLanded l" "mCrashed (integrate2D p l d) = mCrashed l"
  by (simp_all add: integrate2D_def Let_def SetPosition_def)

lemma Update2D_landedAndCrashed:
  "\<not> landedAndCrashed p \<Longrightarrow> \<not> landedAndCrashed (Update2D p dt)"
proof (cases "mLander p")
  case None
  then show ?thesis by (simp add: Update2D_def landedAndCrashed_def)
next
  case (Some l)
  assume nb: "\<not> landedAndCrashed p"
  show ?thesis
  proof (cases "mTerrain p")
    case None
    with Some nb show ?thesis by (simp add: Update2D_def)
  next
    case (Some t)
    show ?thesis
    proof (cases "\<not> mLanded l \<and> \<not> mCrashed l")
      case True
      have "\<not> landedAndCrashed (p\<lparr>mLander := Some (integrate2D p l (dt * mTimeScale p))\<rparr>)"
        using True by (simp add: landedAndCrashed_def integrate2D_flags)
      from CheckCollisions2D_landedAndCrashed [OF this] show ?thesis
        using True Some \<open>mLander p = Some l\<close> by (simp add: Update2D_def Let_def)
    next
      case False
      with Update2D_terminal_id [OF \<open>mLander p = Some l\<close>, of dt] nb show ?thesis by auto
    qed
  qed
qed

lemma Update2D_frame: "m3DMode (Update2D p dt) = m3DMode p"
  by (auto simp: Update2D_def Let_def CheckCollisions2D_frame split: option.splits)

lemma runCall_2D:
  "\<not> m3DMode p \<Longrightarrow> \<not> m3DMode (runCall step3D p c)"
  by (cases c) (simp_all add: Physics_Update_def Let_def Update2D_frame CheckCollisions2D_frame)

lemma runCall_landedAndCrashed:
  "\<not> m3DMode p \<Longrightarrow> \<not> landedAndCrashed p \<Longrightarrow> \<not> landedAndCrashed (runCall step3D p c)"
  by (cases c) (simp_all add: Physics_Update_def Let_def Update2D_landedAndCrashed CheckCollisions2D_landedAndCrashed)

lemma runCalls_landedAndCrashed:
  "\<not> m3DMode p \<Longrightarrow> \<not> landedAndCrashed p \<Longrightarrow> \<not> landedAndCrashed (runCalls step3D p cs)"
  by (induction cs arbitrary: p) (simp_all add: runCall_2D runCall_landedAndCrashed)

lemma runCall_terminal_id:
  "\<not> m3DMode p \<Longrightarrow> mLander p = Some l \<Longrightarrow> mLanded l \<or> mCrashed l \<Longrightarrow> runCall step3D p c = p"
  by (cases c) (simp_all add: Physics_Update_def Let_def Update2D_terminal_id CheckCollisions2D_terminal_id)

lemma runCalls_terminal_id:
  "\<not> m3DMode p \<Longrightarrow> mLander p = Some l \<Longrightarrow> mLanded l \<or> mCrashed l \<Longrightarrow> runCalls step3D p cs = p"
  by (induction cs) (simp_all add: runCall_terminal_id)

lemma CheckCollisions2D_collision:
  assumes "mLander p = Some l" "mTerrain p = Some t" "\<not> mLanded l" "\<not> mCrashed l"
    and "CheckCollision2D t (Some l) 0 = (True, h)"
  shows "CheckCollisions2D p =
     (True, p\<lparr>mLander := Some (l\<lparr>mPosition := \<lparr>idx0 = idx0 (mPosition l),
                                        idx1 = h + mHeight l / mPixelsPerMeter p / 2, idx2 = 0\<rparr>,
                            mVelocity := (mVelocity l)\<lparr>idx0 := 0, idx1 := 0\<rparr>,
                            mLanded := IsValidLanding2D t (Some l),
                            mCrashed := \<not> IsValidLanding2D t (Some l)\<rparr>)\<rparr>)"
  using assms IsValidLanding2D_SetPosition [of t l "h + mHeight l / mPixelsPerMeter p / 2" 0]
  by (simp add: CheckCollisions2D_def Let_def SetPosition_def)

text \<open>
  C3. When the collision test of a 2D step (\<^verbatim>\<open>Update2D\<close>, or \<^verbatim>\<open>CheckCollisions2D\<close> on
  the integrated lander) fires on a lander that is neither landed nor crashed, with
  contact height \<open>h\<close> and conversion factors that are not zero, the step puts the lander
  at \<open>y = h + height / 2\<close>, so that its bottom sits at \<open>h\<close>, zeroes \<open>velocity[0]\<close> and
  \<open>velocity[1]\<close>, and sets landed if \<^verbatim>\<open>IsValidLanding2D\<close> holds and crashed otherwise:
  exactly one of the two flags. In 2D mode, a state in which the flags are not both true
  stays so after any sequence of calls of \<^verbatim>\<open>Update\<close>, \<^verbatim>\<open>Update2D\<close> and
  \<^verbatim>\<open>CheckCollisions2D\<close>.
\<close>

theorem Update2D_collision_terminal:
  "(mLander p = Some l0 \<and> mTerrain p = Some t \<and> \<not> mLanded l0 \<and> \<not> mCrashed l0
      \<and> mPixelsPerMeter p \<noteq> 0 \<and> mPixelsPerMeterT t \<noteq> 0
      \<and> CheckCollision2D t (Some (integrate2D p l0 (deltaTime * mTimeScale p))) 0 = (True, h)
    \<longrightarrow>
      (let l = integrate2D p l0 (deltaTime * mTimeScale p);
           l' = l\<lparr>mPosition := \<lparr>idx0 = idx0 (mPosition l),
                                 idx1 = h + mHeight l / mPixelsPerMeter p / 2, idx2 = 0\<rparr>,
                   mVelocity := (mVelocity l)\<lparr>idx0 := 0, idx1 := 0\<rparr>,
                   mLanded := IsValidLanding2D t (Some l),
                   mCrashed := \<not> IsValidLanding2D t (Some l)\<rparr>
       in Update2D p deltaTime = p\<lparr>mLander := Some l'\<rparr>
          \<and> CheckCollisions2D (p\<lparr>mLander := Some l\<rparr>) = (True, p\<lparr>mLander := Some l'\<rparr>)
          \<and> idx1 (mPosition l') - mHeight l' / mPixelsPerMeter p / 2 = h
          \<and> idx0 (mVelocity l') = 0 \<and> idx1 (mVelocity l') = 0
          \<and> mLanded l' \<noteq> mCrashed l'))
   \<and> (\<not> m3DMode q \<and> \<not> landedAndCrashed q
        \<longrightarrow> \<not> landedAndCrashed (runCalls step3D q calls))"
proof (intro conjI impI)
  assume a: "mLander p = Some l0 \<and> mTerrain p = Some t \<and> \<not> mLanded l0 \<and> \<not> mCrashed l0
      \<and> mPixelsPerMeter p \<noteq> 0 \<and> mPixelsPerMeterT t \<noteq> 0
      \<and> CheckCollision2D t (Some (integrate2D p l0 (deltaTime * mTimeScale p))) 0 = (True, h)"
  define l where "l = integrate2D p l0 (deltaTime * mTimeScale p)"
  define p1 where "p1 = p\<lparr>mLander := Some l\<rparr>"
  have fl: "\<not> mLanded l" "\<not> mCrashed l"
    using a by (simp_all add: l_def integrate2D_flags)
  have p1: "mLander p1 = Some l" "mTerrain p1 = Some t" "mPixelsPerMeter p1 = mPixelsPerMeter p"
    using a by (simp_all add: p1_def)
  have col: "CheckCollision2D t (Some l) 0 = (True, h)"
    using a by (simp add: l_def)
  have cc: "CheckCollisions2D p1 =
     (True, p\<lparr>mLander := Some (l\<lparr>mPosition := \<lparr>idx0 = idx0 (mPosition l),
                                        idx1 = h + mHeight l / mPixelsPerMeter p / 2, idx2 = 0\<rparr>,
                            mVelocity := (mVelocity l)\<lparr>idx0 := 0, idx1 := 0\<rparr>,
                            mLanded := IsValidLanding2D t (Some l),
                            mCrashed := \<not> IsValidLanding2D t (Some l)\<rparr>)\<rparr>)"
    using CheckCollisions2D_collision [OF p1(1) p1(2) fl col]
    by (simp add: p1_def)
  have up: "Update2D p deltaTime = snd (CheckCollisions2D p1)"
    using a by (simp add: Update2D_def Let_def l_def p1_def)
  show "let l = integrate2D p l0 (deltaTime * mTimeScale p);
           l' = l\<lparr>mPosition := \<lparr>idx0 = idx0 (mPosition l),
                                 idx1 = h + mHeight l / mPixelsPerMeter p / 2, idx2 = 0\<rparr>,
                   mVelocity := (mVelocity l)\<lparr>idx0 := 0, idx1 := 0\<rparr>,
                   mLanded := IsValidLanding2D t (Some l),
                   mCrashed := \<not> IsValidLanding2D t (Some l)\<rparr>
       in Update2D p deltaTime = p\<lparr>mLander := Some l'\<rparr>
          \<and> CheckCollisions2D (p\<lparr>mLander := Some l\<rparr>) = (True, p\<lparr>mLander := Some l'\<rparr>)
          \<and> idx1 (mPosition l') - mHeight l' / mPixelsPerMeter p / 2 = h
          \<and> idx0 (mVelocity l') = 0 \<and> idx1 (mVelocity l') = 0
          \<and> mLanded l' \<noteq> mCrashed l'"
    unfolding Let_def l_def [symmetric] p1_def [symmetric]
    using cc up by simp
next
  assume "\<not> m3DMode q \<and> \<not> landedAndCrashed q"
  then show "\<not> landedAndCrashed (runCalls step3D q calls)"
    by (simp add: runCalls_landedAndCrashed)
qed

theorem Update2D_collision_terminal_witness:
  "Update2D (scenarioPhysics (scenarioLander 5 (1/2) 0 (-1))) (1/10) =
     scenarioPhysics ((scenarioLander 5 (3/4) 0 0)\<lparr>mLanded := True\<rparr>)
   \<and> Update2D (scenarioPhysics (scenarioLander 5 (1/2) 0 (-5))) (1/10) =
     scenarioPhysics ((scenarioLander 5 (3/4) 0 0)\<lparr>mCrashed := True\<rparr>)
   \<and> \<not> landedAndCrashed (runCalls (\<lambda>p d. p) (scenarioPhysics (scenarioLander 5 (1/2) 0 (-1)))
          [CallUpdate (1/10), CallUpdate2D 1, CallCheckCollisions2D])"
proof -
  let ?A = "scenarioLander 5 (1/2) 0 (-1)" and ?B = "scenarioLander 5 (1/2) 0 (-5)"
  have iA: "integrate2D (scenarioPhysics ?A) ?A (1/10 * mTimeScale (scenarioPhysics ?A))
      = scenarioLander 5 (1919/5000) 0 (- (581/500))"
    by (simp add: integrate2D_def Let_def scenario_defs physics_defs)
  have iB: "integrate2D (scenarioPhysics ?B) ?B (1/10 * mTimeScale (scenarioPhysics ?B))
      = scenarioLander 5 (- (81/5000)) 0 (- (2581/500))"
    by (simp add: integrate2D_def Let_def scenario_defs physics_defs)
  have c: "CheckCollision2D scenarioTerrain (Some (scenarioLander 5 y 0 v)) 0 = (True, 0)"
    if "y \<le> 3/4" for y v
    using that
    by (simp add: CheckCollision2D_def screenLanderX_def landerBottomY_def inSegmentSpan_def
          terrainHeightMeters_def scenario_defs)
  have vA: "IsValidLanding2D scenarioTerrain (Some (scenarioLander 5 (1919/5000) 0 (- (581/500))))"
    by (simp add: IsValidLanding2D_def screenLanderX_def scenario_defs)
  have vB: "\<not> IsValidLanding2D scenarioTerrain (Some (scenarioLander 5 (- (81/5000)) 0 (- (2581/500))))"
    by (simp add: IsValidLanding2D_def screenLanderX_def scenario_defs)
  have q: "\<not> m3DMode (scenarioPhysics ?A) \<and> \<not> landedAndCrashed (scenarioPhysics ?A)"
    by (simp add: landedAndCrashed_def scenario_defs physics_defs)
  have preA: "mLander (scenarioPhysics ?A) = Some ?A \<and> mTerrain (scenarioPhysics ?A) = Some scenarioTerrain
      \<and> \<not> mLanded ?A \<and> \<not> mCrashed ?A
      \<and> mPixelsPerMeter (scenarioPhysics ?A) \<noteq> 0 \<and> mPixelsPerMeterT scenarioTerrain \<noteq> 0
      \<and> CheckCollision2D scenarioTerrain
            (Some (integrate2D (scenarioPhysics ?A) ?A (1/10 * mTimeScale (scenarioPhysics ?A)))) 0
          = (True, 0)"
    unfolding iA by (simp add: c) (simp add: scenario_defs physics_defs)
  have preB: "mLander (scenarioPhysics ?B) = Some ?B \<and> mTerrain (scenarioPhysics ?B) = Some scenarioTerrain
      \<and> \<not> mLanded ?B \<and> \<not> mCrashed ?B
      \<and> mPixelsPerMeter (scenarioPhysics ?B) \<noteq> 0 \<and> mPixelsPerMeterT scenarioTerrain \<noteq> 0
      \<and> CheckCollision2D scenarioTerrain
            (Some (integrate2D (scenarioPhysics ?B) ?B (1/10 * mTimeScale (scenarioPhysics ?B)))) 0
          = (True, 0)"
    unfolding iB by (simp add: c) (simp add: scenario_defs physics_defs)
  have A: "Update2D (scenarioPhysics ?A) (1/10) =
     scenarioPhysics ((scenarioLander 5 (3/4) 0 0)\<lparr>mLanded := True\<rparr>)"
    using conjunct1 [OF Update2D_collision_terminal
            [of "scenarioPhysics ?A" ?A scenarioTerrain "1/10" 0 "scenarioPhysics ?A" "\<lambda>p d. p" "[]"],
            THEN mp, OF preA]
    unfolding iA Let_def
    by (simp add: vA) (simp add: scenario_defs physics_defs)
  have B: "Update2D (scenarioPhysics ?B) (1/10) =
     scenarioPhysics ((scenarioLander 5 (3/4) 0 0)\<lparr>mCrashed := True\<rparr>)"
    using conjunct1 [OF Update2D_collision_terminal
            [of "scenarioPhysics ?B" ?B scenarioTerrain "1/10" 0 "scenarioPhysics ?A" "\<lambda>p d. p" "[]"],
            THEN mp, OF preB]
    unfolding iB Let_def
    by (simp add: vB) (simp add: scenario_defs physics_defs)
  have C: "\<not> landedAndCrashed (runCalls (\<lambda>p d. p) (scenarioPhysics ?A)
          [CallUpdate (1/10), CallUpdate2D 1, CallCheckCollisions2D])"
    using Update2D_collision_terminal
            [of "scenarioPhysics ?A" ?A scenarioTerrain "1/10" 0 "scenarioPhysics ?A" "\<lambda>p d. p"
                "[CallUpdate (1/10), CallUpdate2D 1, CallCheckCollisions2D]"] q
    by blast
  from A B C show ?thesis by blast
qed

text \<open>
  C4. In 2D mode, with a registered lander whose landed or crashed flag is true,
  \<^verbatim>\<open>Update\<close> with any delta-time, any number of times (and any sequence of the calls
  above), leaves the whole state as it is; the position and the velocity of the lander
  in particular.
\<close>

theorem Update_terminal_idempotent:
  assumes "mLander p = Some l" and "mLanded l \<or> mCrashed l" and "\<not> m3DMode p"
  shows "Physics_Update step3D p deltaTime = p
       \<and> runCalls step3D p (map CallUpdate deltaTimes) = p
       \<and> runCalls step3D p calls = p
       \<and> map_option mPosition (mLander (runCalls step3D p (map CallUpdate deltaTimes)))
           = Some (mPosition l)
       \<and> map_option mVelocity (mLander (runCalls step3D p (map CallUpdate deltaTimes)))
           = Some (mVelocity l)"
  using assms runCalls_terminal_id [OF assms(3) assms(1) assms(2)]
        runCall_terminal_id [OF assms(3) assms(1) assms(2), of step3D "CallUpdate deltaTime"]
  by simp

theorem Update_terminal_idempotent_witness:
  "runCalls (\<lambda>p d. p) (scenarioPhysics ((scenarioLander 5 (3/4) 0 0)\<lparr>mCrashed := True\<rparr>))
      (map CallUpdate [1/60, 1/10, 5])
     = scenarioPhysics ((scenarioLander 5 (3/4) 0 0)\<lparr>mCrashed := True\<rparr>)"
proof -
  have a: "mLander (scenarioPhysics ((scenarioLander 5 (3/4) 0 0)\<lparr>mCrashed := True\<rparr>))
             = Some ((scenarioLander 5 (3/4) 0 0)\<lparr>mCrashed := True\<rparr>)"
    by (simp add: physics_defs)
  have b: "mLanded ((scenarioLander 5 (3/4) 0 0)\<lparr>mCrashed := True\<rparr>)
         \<or> mCrashed ((scenarioLander 5 (3/4) 0 0)\<lparr>mCrashed := True\<rparr>)"
    by simp
  have c: "\<not> m3DMode (scenarioPhysics ((scenarioLander 5 (3/4) 0 0)\<lparr>mCrashed := True\<rparr>))"
    by (simp add: physics_defs)
  from Update_terminal_idempotent [OF a b c, of "\<lambda>p d. p" 0 "[1/60, 1/10, 5]" "[]"]
  show ?thesis by simp
qed

section \<open>Properties of the binary32 rounding\<close>

lemma roundEven_of_int [simp]: "roundEven (of_int n) = n"
  by (simp add: roundEven_def)

lemma roundEven_bounds: "\<lfloor>x\<rfloor> \<le> roundEven x" "roundEven x \<le> \<lfloor>x\<rfloor> + 1"
  by (simp_all add: roundEven_def Let_def)

lemma roundEven_mono: "x \<le> y \<Longrightarrow> roundEven x \<le> roundEven y"
proof -
  assume xy: "x \<le> y"
  then have f: "\<lfloor>x\<rfloor> \<le> \<lfloor>y\<rfloor>" by (rule floor_mono)
  show ?thesis
  proof (cases "\<lfloor>x\<rfloor> = \<lfloor>y\<rfloor>")
    case True
    with xy show ?thesis by (auto simp: roundEven_def Let_def)
  next
    case False
    with f have "\<lfloor>x\<rfloor> + 1 \<le> \<lfloor>y\<rfloor>" by simp
    with roundEven_bounds(2) [of x] roundEven_bounds(1) [of y] show ?thesis by linarith
  qed
qed

lemma roundEven_zero [simp]: "roundEven 0 = 0"
  by (simp add: roundEven_def)

lemma roundEven_nonneg: "0 \<le> x \<Longrightarrow> 0 \<le> roundEven x"
  using roundEven_mono [of 0 x] by simp

lemma roundEven_le_int: "x \<le> of_int n \<Longrightarrow> roundEven x \<le> n"
  using roundEven_mono [of x "of_int n"] by simp

lemma roundEven_ge_int: "of_int n \<le> x \<Longrightarrow> n \<le> roundEven x"
  using roundEven_mono [of "of_int n" x] by simp

lemma round32_zero [simp]: "round32 0 = 0"
  by (simp add: round32_def)

lemma ulpExp_abs: "ulpExp \<bar>x\<bar> = ulpExp x" "ulpExp (- x) = ulpExp x"
  by (simp_all add: ulpExp_def)

lemma round32_minus: "round32 (- x) = - round32 x"
  by (simp add: round32_def ulpExp_abs sgn_minus)

lemma round32_pos:
  "0 < a \<Longrightarrow> round32 a = of_int (roundEven (a / 2 powr of_int (ulpExp a))) * 2 powr of_int (ulpExp a)"
  by (simp add: round32_def)

lemma round32_nonneg: "0 \<le> a \<Longrightarrow> 0 \<le> round32 a"
  by (cases "a = 0") (simp_all add: round32_pos roundEven_nonneg)

text \<open>Bounds of a positive number by the powers of two around it.\<close>

lemma ulpExp_upper: "0 < a \<Longrightarrow> a < 2 powr of_int (ulpExp a + 24)"
proof -
  assume a: "0 < a"
  define e where "e = \<lfloor>log 2 a\<rfloor>"
  have "a < 2 powr (of_int e + 1)"
    using floor_log_eq_powr_iff [of a 2 e] a by (simp add: e_def)
  also have "\<dots> \<le> 2 powr of_int (ulpExp a + 24)"
    using a by (simp add: ulpExp_def e_def)
  finally show ?thesis .
qed

lemma ulpExp_lower:
  "0 < a \<Longrightarrow> - 149 < ulpExp a \<Longrightarrow> 2 powr of_int (ulpExp a + 23) \<le> a"
proof -
  assume a: "0 < a" and n: "- 149 < ulpExp a"
  define e where "e = \<lfloor>log 2 a\<rfloor>"
  from n a have "ulpExp a = e - 23"
    by (auto simp: ulpExp_def e_def max_def split: if_splits)
  moreover have "2 powr of_int e \<le> a"
    using floor_log_eq_powr_iff [of a 2 e] a by (simp add: e_def)
  ultimately show ?thesis by simp
qed

lemma ulpExp_mono: "0 < a \<Longrightarrow> a \<le> b \<Longrightarrow> ulpExp a \<le> ulpExp b"
proof -
  assume "0 < a" "a \<le> b"
  then have "log 2 a \<le> log 2 b" by simp
  then have "\<lfloor>log 2 a\<rfloor> \<le> \<lfloor>log 2 b\<rfloor>" by (rule floor_mono)
  with \<open>0 < a\<close> \<open>a \<le> b\<close> show ?thesis by (simp add: ulpExp_def)
qed

lemma ulpExp_ge: "- 149 \<le> ulpExp a"
  by (simp add: ulpExp_def)

lemma ulpExp_eqI:
  "2 powr of_int e \<le> a \<Longrightarrow> a < 2 powr of_int (e + 1) \<Longrightarrow> - 126 \<le> e \<Longrightarrow> ulpExp a = e - 23"
proof -
  assume h: "2 powr of_int e \<le> a" "a < 2 powr of_int (e + 1)" "- 126 \<le> e"
  have "0 < a" using h(1) by (smt (verit) powr_gt_zero)
  then have "\<lfloor>log 2 a\<rfloor> = e"
    using floor_log_eq_powr_iff [of a 2 e] h by simp
  with h(3) \<open>0 < a\<close> show ?thesis by (simp add: ulpExp_def)
qed

lemma ulpExp_subnormal:
  "0 < a \<Longrightarrow> a < 2 powr (- 126) \<Longrightarrow> ulpExp a = - 149"
proof -
  assume h: "0 < a" "a < 2 powr (- 126)"
  then have "log 2 a < - 126"
    using log_less_iff [of 2 a "- 126"] by simp
  then have "\<lfloor>log 2 a\<rfloor> < - 126" by linarith
  with h show ?thesis by (simp add: ulpExp_def)
qed

lemma round32_upper: "0 < a \<Longrightarrow> round32 a \<le> 2 powr of_int (ulpExp a + 24)"
proof -
  assume a: "0 < a"
  define k where "k = ulpExp a"
  have "a / 2 powr of_int k < 2 powr 24"
    using ulpExp_upper [OF a] by (simp add: k_def powr_add divide_less_eq mult.commute)
  then have "a / 2 powr of_int k \<le> of_int (2 ^ 24)"
    by simp
  then have "roundEven (a / 2 powr of_int k) \<le> 2 ^ 24"
    by (rule roundEven_le_int)
  then have "real_of_int (roundEven (a / 2 powr of_int k)) \<le> 2 ^ 24"
    using of_int_le_iff [of "roundEven (a / 2 powr of_int k)" "2 ^ 24", where ?'a = real] by simp
  then have "real_of_int (roundEven (a / 2 powr of_int k)) * 2 powr of_int k
               \<le> 2 ^ 24 * 2 powr of_int k"
    by (intro mult_right_mono) simp_all
  then show ?thesis
    using a by (simp add: round32_pos k_def powr_add mult.commute)
qed

lemma round32_lower:
  "0 < a \<Longrightarrow> - 149 < ulpExp a \<Longrightarrow> 2 powr of_int (ulpExp a + 23) \<le> round32 a"
proof -
  assume a: "0 < a" and n: "- 149 < ulpExp a"
  define k where "k = ulpExp a"
  have "2 powr 23 \<le> a / 2 powr of_int k"
    using ulpExp_lower [OF a n] by (simp add: k_def powr_add le_divide_eq mult.commute)
  then have "of_int (2 ^ 23) \<le> a / 2 powr of_int k"
    by simp
  then have "2 ^ 23 \<le> roundEven (a / 2 powr of_int k)"
    by (rule roundEven_ge_int)
  then have "2 ^ 23 \<le> real_of_int (roundEven (a / 2 powr of_int k))"
    using of_int_le_iff [of "2 ^ 23" "roundEven (a / 2 powr of_int k)", where ?'a = real] by simp
  then have "2 ^ 23 * 2 powr of_int k
               \<le> real_of_int (roundEven (a / 2 powr of_int k)) * 2 powr of_int k"
    by (intro mult_right_mono) simp_all
  then show ?thesis
    using a by (simp add: round32_pos k_def powr_add mult.commute)
qed

lemma round32_mono_pos: "0 < a \<Longrightarrow> a \<le> b \<Longrightarrow> round32 a \<le> round32 b"
proof -
  assume a: "0 < a" and ab: "a \<le> b"
  then have b: "0 < b" by simp
  have k: "ulpExp a \<le> ulpExp b" using a ab by (rule ulpExp_mono)
  show ?thesis
  proof (cases "ulpExp a = ulpExp b")
    case True
    have "a / 2 powr of_int (ulpExp b) \<le> b / 2 powr of_int (ulpExp b)"
      using ab by (simp add: divide_right_mono)
    then have "roundEven (a / 2 powr of_int (ulpExp b)) \<le> roundEven (b / 2 powr of_int (ulpExp b))"
      by (rule roundEven_mono)
    then show ?thesis
      using a b True by (simp add: round32_pos mult_right_mono)
  next
    case False
    with k have lt: "ulpExp a + 1 \<le> ulpExp b" by simp
    with ulpExp_ge [of a] have nb: "- 149 < ulpExp b" by linarith
    have "round32 a \<le> 2 powr of_int (ulpExp a + 24)" using a by (rule round32_upper)
    also have "\<dots> \<le> 2 powr of_int (ulpExp b + 23)"
      using lt by (simp del: of_int_add)
    also have "\<dots> \<le> round32 b" using b nb by (rule round32_lower)
    finally show ?thesis .
  qed
qed

lemma round32_mono: "x \<le> y \<Longrightarrow> round32 x \<le> round32 y"
proof -
  assume xy: "x \<le> y"
  consider "0 < x" | "x \<le> 0" "0 \<le> y" | "y < 0" by linarith
  then show ?thesis
  proof cases
    case 1
    then show ?thesis using xy by (rule round32_mono_pos)
  next
    case 2
    have "round32 x \<le> 0"
      using round32_nonneg [of "- x"] 2(1) by (simp add: round32_minus)
    also have "0 \<le> round32 y" using 2(2) by (rule round32_nonneg)
    finally show ?thesis .
  next
    case 3
    then have "round32 (- y) \<le> round32 (- x)"
      using xy by (intro round32_mono_pos) simp_all
    then show ?thesis by (simp add: round32_minus)
  qed
qed

lemma round32_eval:
  "2 powr of_int e \<le> a \<Longrightarrow> a < 2 powr of_int (e + 1) \<Longrightarrow> - 126 \<le> e \<Longrightarrow>
     round32 a = of_int (roundEven (a / 2 powr of_int (e - 23))) * 2 powr of_int (e - 23)"
proof -
  assume h: "2 powr of_int e \<le> a" "a < 2 powr of_int (e + 1)" "- 126 \<le> e"
  have "0 < a" using h(1) by (smt (verit) powr_gt_zero)
  with ulpExp_eqI [OF h] show ?thesis by (simp add: round32_pos)
qed

lemma round32_grid:
  assumes n: "0 < n" "n < 2 ^ 24" and k: "- 149 \<le> k" and nk: "k = - 149 \<or> 2 ^ 23 \<le> n"
  shows "round32 (of_int n * 2 powr of_int k) = of_int n * 2 powr of_int k"
proof -
  define r where "r = real_of_int n * 2 powr of_int k"
  have rpos: "0 < r" using n(1) by (simp add: r_def)
  have nr: "real_of_int n < 2 ^ 24" "0 < real_of_int n"
    using n of_int_less_iff [of n "2 ^ 24", where ?'a = real] by simp_all
  have up: "r < 2 powr of_int (k + 24)"
    using nr by (simp add: r_def powr_add)
  have "ulpExp r = k"
  proof (cases "2 ^ 23 \<le> n")
    case True
    then have "2 ^ 23 \<le> real_of_int n"
      using of_int_le_iff [of "2 ^ 23" n, where ?'a = real] by simp
    then have lo: "2 powr of_int (k + 23) \<le> r"
      by (simp add: r_def powr_add)
    have "ulpExp r = (k + 23) - 23"
      using lo up k by (intro ulpExp_eqI) (simp_all add: add.assoc)
    then show ?thesis by simp
  next
    case False
    with nk have k149: "k = - 149" by simp
    from False have "real_of_int n < 2 ^ 23"
      using of_int_less_iff [of n "2 ^ 23", where ?'a = real] by simp
    then have "r < 2 ^ 23 * 2 powr (- 149)"
      by (simp add: r_def k149)
    also have "\<dots> = 2 powr (- 126)"
      by (simp add: powr_neg_numeral)
    finally have "ulpExp r = - 149" using rpos by (intro ulpExp_subnormal)
    with k149 show ?thesis by simp
  qed
  then have "round32 r = of_int (roundEven (r / 2 powr of_int k)) * 2 powr of_int k"
    using rpos by (simp add: round32_pos)
  also have "r / 2 powr of_int k = of_int n"
    by (simp add: r_def)
  finally show ?thesis by (simp add: r_def)
qed

lemma round32_pow2:
  "- 126 \<le> e \<Longrightarrow> round32 (2 powr of_int e) = 2 powr of_int e"
proof -
  assume e: "- 126 \<le> e"
  have "round32 (2 powr of_int e)
          = of_int (roundEven (2 powr of_int e / 2 powr of_int (e - 23))) * 2 powr of_int (e - 23)"
    using e by (intro round32_eval) simp_all
  also have "2 powr of_int e / 2 powr of_int (e - 23) = real_of_int (2 ^ 23)"
    by (simp add: powr_diff [symmetric])
  finally show ?thesis
    by (simp only: roundEven_of_int) (simp add: powr_diff)
qed

lemma round32_idem_pos: "0 < a \<Longrightarrow> round32 (round32 a) = round32 a"
proof -
  assume a: "0 < a"
  define k where "k = ulpExp a"
  define n where "n = roundEven (a / 2 powr of_int k)"
  have r: "round32 a = of_int n * 2 powr of_int k"
    using a by (simp add: round32_pos k_def n_def)
  have n0: "0 \<le> n" using a by (simp add: n_def roundEven_nonneg)
  have k149: "- 149 \<le> k" by (simp add: k_def ulpExp_ge)
  have nle: "real_of_int n * 2 powr of_int k \<le> 2 powr of_int (k + 24)"
    using round32_upper [OF a] by (simp add: r k_def)
  then have "real_of_int n \<le> 2 ^ 24"
    by (simp add: powr_add)
  then have n24: "n \<le> 2 ^ 24"
    using of_int_le_iff [of n "2 ^ 24", where ?'a = real] by simp
  have nlo: "k = - 149 \<or> 2 ^ 23 \<le> n"
  proof (cases "k = - 149")
    case False
    with k149 have "- 149 < ulpExp a" by (simp add: k_def)
    from round32_lower [OF a this] have "2 powr of_int (k + 23) \<le> real_of_int n * 2 powr of_int k"
      by (simp add: r k_def)
    then have "2 ^ 23 \<le> real_of_int n" by (simp add: powr_add)
    then have "2 ^ 23 \<le> n"
      using of_int_le_iff [of "2 ^ 23" n, where ?'a = real] by simp
    then show ?thesis ..
  qed simp
  consider "n = 0" | "n = 2 ^ 24" | "0 < n" "n < 2 ^ 24"
    using n0 n24 by linarith
  then show ?thesis
  proof cases
    case 1
    then show ?thesis by (simp add: r)
  next
    case 2
    then have "round32 a = 2 powr of_int (k + 24)"
      by (simp add: r powr_add)
    moreover have "round32 (2 powr of_int (k + 24)) = 2 powr of_int (k + 24)"
      using k149 by (intro round32_pow2) simp
    ultimately show ?thesis by simp
  next
    case 3
    with round32_grid [OF 3 k149 nlo] show ?thesis by (simp add: r)
  qed
qed

lemma round32_idem: "round32 (round32 x) = round32 x"
proof (cases "0 < x")
  case True
  then show ?thesis by (rule round32_idem_pos)
next
  case False
  show ?thesis
  proof (cases "x = 0")
    case True
    then show ?thesis by simp
  next
    case False
    with \<open>\<not> 0 < x\<close> have "0 < - x" by simp
    from round32_idem_pos [OF this] show ?thesis by (simp add: round32_minus)
  qed
qed

section \<open>Properties of the fuel consumption\<close>

lemma Lander_Update_fuel:
  "mThrustActive l \<Longrightarrow> mFuel l > 0 \<Longrightarrow>
     mFuel (Lander_Update l dt)
       = max 0 (round32 (mFuel l
                  - round32 (round32 (mFuelConsumptionRate l * mThrustLevel l) * dt)))"
  by (simp add: Lander_Update_def Let_def)

lemma Lander_Update_idle:
  "\<not> (mThrustActive l \<and> mFuel l > 0) \<Longrightarrow> Lander_Update l dt = l"
  by (auto simp: Lander_Update_def)

lemma Lander_Update_rate:
  "mFuelConsumptionRate (Lander_Update l dt) = mFuelConsumptionRate l"
  by (simp add: Lander_Update_def Let_def)

lemma Lander_Update_level_nonneg:
  "0 \<le> mThrustLevel l \<Longrightarrow> 0 \<le> mThrustLevel (Lander_Update l dt)"
  by (simp add: Lander_Update_def Let_def)

lemma Lander_Update_fuel_nonneg:
  "0 \<le> mFuel l \<Longrightarrow> 0 \<le> mFuel (Lander_Update l dt)"
  by (simp add: Lander_Update_def Let_def)

lemma Lander_Update_fuel_float:
  assumes "round32 (mFuel l) = mFuel l"
  shows "round32 (mFuel (Lander_Update l dt)) = mFuel (Lander_Update l dt)"
proof (cases "mThrustActive l \<and> mFuel l > 0")
  case True
  then show ?thesis
    by (simp add: Lander_Update_fuel max_def round32_idem)
next
  case False
  with assms show ?thesis by (simp add: Lander_Update_idle)
qed

lemma Lander_Update_fuel_le:
  assumes "round32 (mFuel l) = mFuel l" "0 \<le> mFuel l" "0 \<le> mThrustLevel l"
    "0 \<le> mFuelConsumptionRate l" "0 \<le> dt"
  shows "mFuel (Lander_Update l dt) \<le> mFuel l"
proof (cases "mThrustActive l \<and> mFuel l > 0")
  case True
  have "0 \<le> round32 (mFuelConsumptionRate l * mThrustLevel l)"
    using assms by (intro round32_nonneg) simp
  then have "0 \<le> round32 (round32 (mFuelConsumptionRate l * mThrustLevel l) * dt)"
    using assms by (intro round32_nonneg) simp
  then have "round32 (mFuel l - round32 (round32 (mFuelConsumptionRate l * mThrustLevel l) * dt))
               \<le> round32 (mFuel l)"
    by (intro round32_mono) simp
  with True assms(1, 2) show ?thesis
    by (simp add: Lander_Update_fuel)
next
  case False
  then show ?thesis by (simp add: Lander_Update_idle)
qed

lemma Lander_Update_out_of_fuel:
  "mThrustActive l \<Longrightarrow> mFuel l > 0 \<Longrightarrow> mFuel (Lander_Update l dt) \<le> 0 \<Longrightarrow>
     \<not> mThrustActive (Lander_Update l dt) \<and> mThrustLevel (Lander_Update l dt) = 0"
  by (simp add: Lander_Update_def Let_def split: if_splits)

lemma Lander_Updates_inv:
  "round32 (mFuel l) = mFuel l \<Longrightarrow> 0 \<le> mFuel l \<Longrightarrow> 0 \<le> mThrustLevel l \<Longrightarrow>
   0 \<le> mFuelConsumptionRate l \<Longrightarrow>
     round32 (mFuel (Lander_Updates l dts)) = mFuel (Lander_Updates l dts)
       \<and> 0 \<le> mFuel (Lander_Updates l dts) \<and> 0 \<le> mThrustLevel (Lander_Updates l dts)
       \<and> 0 \<le> mFuelConsumptionRate (Lander_Updates l dts)"
  by (induction dts arbitrary: l)
     (simp_all add: Lander_Update_fuel_float Lander_Update_fuel_nonneg
        Lander_Update_level_nonneg Lander_Update_rate)

lemma Lander_Updates_fuel_le:
  "round32 (mFuel l) = mFuel l \<Longrightarrow> 0 \<le> mFuel l \<Longrightarrow> 0 \<le> mThrustLevel l \<Longrightarrow>
   0 \<le> mFuelConsumptionRate l \<Longrightarrow> \<forall>dt \<in> set dts. 0 \<le> dt \<Longrightarrow>
     mFuel (Lander_Updates l dts) \<le> mFuel l"
proof (induction dts arbitrary: l)
  case Nil
  then show ?case by simp
next
  case (Cons dt dts)
  have "mFuel (Lander_Updates (Lander_Update l dt) dts) \<le> mFuel (Lander_Update l dt)"
    using Cons.prems
    by (intro Cons.IH)
       (simp_all add: Lander_Update_fuel_float Lander_Update_fuel_nonneg
          Lander_Update_level_nonneg Lander_Update_rate)
  also have "\<dots> \<le> mFuel l"
    using Cons.prems by (simp add: Lander_Update_fuel_le)
  finally show ?case by simp
qed

lemma Lander_Updates_append:
  "Lander_Updates l (as @ bs) = Lander_Updates (Lander_Updates l as) bs"
  by (induction as arbitrary: l) simp_all

lemma Lander_Updates_replicate_fixed:
  "Lander_Update l dt = l \<Longrightarrow> Lander_Updates l (replicate n dt) = l"
  by (induction n) simp_all

text \<open>
  The constructor and the methods of \<^verbatim>\<open>Lander\<close> keep the fuel, the thrust level, the
  consumption rate and the capacity at or above 0.
\<close>

lemma Lander_methods_keep_bounds:
  "0 \<le> mFuel (Lander_new n) \<and> 0 \<le> mThrustLevel (Lander_new n)
     \<and> 0 \<le> mFuelConsumptionRate (Lander_new n) \<and> 0 \<le> mMaxFuel (Lander_new n)"
  "0 \<le> mFuel l \<and> 0 \<le> mThrustLevel l \<and> 0 \<le> mFuelConsumptionRate l \<and> 0 \<le> mMaxFuel l \<Longrightarrow>
     0 \<le> mFuel (Lander_ApplyThrust l amount) \<and> 0 \<le> mThrustLevel (Lander_ApplyThrust l amount)
     \<and> 0 \<le> mFuelConsumptionRate (Lander_ApplyThrust l amount)
     \<and> 0 \<le> mMaxFuel (Lander_ApplyThrust l amount)"
  "0 \<le> mFuel l \<and> 0 \<le> mThrustLevel l \<and> 0 \<le> mFuelConsumptionRate l \<and> 0 \<le> mMaxFuel l \<Longrightarrow>
     0 \<le> mFuel (Lander_Update l deltaTime) \<and> 0 \<le> mThrustLevel (Lander_Update l deltaTime)
     \<and> 0 \<le> mFuelConsumptionRate (Lander_Update l deltaTime)
     \<and> 0 \<le> mMaxFuel (Lander_Update l deltaTime)"
  "0 \<le> mFuel l \<and> 0 \<le> mThrustLevel l \<and> 0 \<le> mFuelConsumptionRate l \<and> 0 \<le> mMaxFuel l \<Longrightarrow>
     0 \<le> mFuel (Lander_Reset l) \<and> 0 \<le> mThrustLevel (Lander_Reset l)
     \<and> 0 \<le> mFuelConsumptionRate (Lander_Reset l) \<and> 0 \<le> mMaxFuel (Lander_Reset l)"
  by (simp_all add: Lander_new_def Lander_ApplyThrust_def Lander_Update_def Lander_Reset_def
        SetPosition_def SetRotation_def Let_def)

text \<open>Values of the scenarios that binary32 represents.\<close>

lemma round32_values:
  "round32 10 = 10" "round32 5 = 5" "round32 1000 = 1000" "round32 990 = 990"
  "round32 2000 = 2000"
  "round32 (5 / 4) = 5 / 4" "round32 (3995 / 4) = 3995 / 4"
  "round32 (5 / 1048576) = 5 / 1048576" "round32 (1048575995 / 1048576) = 1000"
  using round32_eval [of 3 10] round32_eval [of 2 5] round32_eval [of 9 1000]
    round32_eval [of 9 990] round32_eval [of 10 2000]
    round32_eval [of 0 "5 / 4"] round32_eval [of 9 "3995 / 4"]
    round32_eval [of "- 18" "5 / 1048576"] round32_eval [of 9 "1048575995 / 1048576"]
  by (simp_all add: powr_neg_numeral roundEven_def)

lemma round32_minus_1000: "round32 (- 1000) = - 1000"
  using round32_minus [of 1000] by (simp add: round32_values)

text \<open>
  C5, as the code has it. With the thrust active and positive fuel, \<^verbatim>\<open>Lander::Update\<close>
  with \<open>deltaTime \<ge> 0\<close> sets the fuel to
  \<open>max 0 (fl (fuel - fl (fl (consumptionRate \<times> thrustLevel) \<times> deltaTime)))\<close>, where \<open>fl\<close>
  rounds to binary32: the fuel goes down by \<open>consumptionRate \<times> thrustLevel \<times> deltaTime\<close>
  exactly when these three results are binary32 values, and up to rounding otherwise;
  it never goes below 0. If the fuel reaches 0 in a step, that step switches the thrust
  off and zeroes its level. For a lander whose fuel is a binary32 value and whose fuel,
  thrust level and consumption rate are not negative (as in every state the constructor
  and the methods of \<^verbatim>\<open>Lander\<close> produce), the fuel is never negative and never
  increases along a sequence of updates with delta-times \<open>\<ge> 0\<close>. Thrust at level 0.5 and
  rate 10 kg/s in one update of 2 s consumes exactly 10 kg when the fuel left is a
  binary32 value, as it is from the full tank of 1000 kg.
\<close>

theorem Lander_Update_fuel_consumption:
  "(mThrustActive l \<and> mFuel l > 0 \<and> 0 \<le> deltaTime \<longrightarrow>
      mFuel (Lander_Update l deltaTime)
        = max 0 (round32 (mFuel l
                   - round32 (round32 (mFuelConsumptionRate l * mThrustLevel l) * deltaTime))))
   \<and> (mThrustActive l \<and> mFuel l > 0 \<and> 0 \<le> deltaTime
        \<and> round32 (mFuelConsumptionRate l * mThrustLevel l)
              = mFuelConsumptionRate l * mThrustLevel l
        \<and> round32 (mFuelConsumptionRate l * mThrustLevel l * deltaTime)
              = mFuelConsumptionRate l * mThrustLevel l * deltaTime
        \<and> round32 (mFuel l - mFuelConsumptionRate l * mThrustLevel l * deltaTime)
              = mFuel l - mFuelConsumptionRate l * mThrustLevel l * deltaTime \<longrightarrow>
      mFuel (Lander_Update l deltaTime)
        = max 0 (mFuel l - mFuelConsumptionRate l * mThrustLevel l * deltaTime))
   \<and> (mThrustActive l \<and> mFuel l > 0 \<and> mFuel (Lander_Update l deltaTime) \<le> 0 \<longrightarrow>
        \<not> mThrustActive (Lander_Update l deltaTime)
          \<and> mThrustLevel (Lander_Update l deltaTime) = 0)
   \<and> (round32 (mFuel l) = mFuel l
        \<and> 0 \<le> mFuel l \<and> 0 \<le> mThrustLevel l \<and> 0 \<le> mFuelConsumptionRate l
        \<and> (\<forall>dt \<in> set (deltaTimes @ deltaTimes'). 0 \<le> dt) \<longrightarrow>
        0 \<le> mFuel (Lander_Updates l (deltaTimes @ deltaTimes'))
          \<and> mFuel (Lander_Updates l (deltaTimes @ deltaTimes'))
               \<le> mFuel (Lander_Updates l deltaTimes)
          \<and> mFuel (Lander_Updates l deltaTimes) \<le> mFuel l)
   \<and> (mThrustActive l \<and> mThrustLevel l = 1/2 \<and> mFuelConsumptionRate l = 10
        \<and> 10 \<le> mFuel l \<and> round32 (mFuel l - 10) = mFuel l - 10 \<longrightarrow>
        mFuel (Lander_Update l 2) = mFuel l - 10)"
proof (intro conjI impI)
  assume "mThrustActive l \<and> 0 < mFuel l \<and> 0 \<le> deltaTime"
  then show "mFuel (Lander_Update l deltaTime)
        = max 0 (round32 (mFuel l
                   - round32 (round32 (mFuelConsumptionRate l * mThrustLevel l) * deltaTime)))"
    by (simp add: Lander_Update_fuel)
next
  assume "mThrustActive l \<and> mFuel l > 0 \<and> 0 \<le> deltaTime
        \<and> round32 (mFuelConsumptionRate l * mThrustLevel l)
              = mFuelConsumptionRate l * mThrustLevel l
        \<and> round32 (mFuelConsumptionRate l * mThrustLevel l * deltaTime)
              = mFuelConsumptionRate l * mThrustLevel l * deltaTime
        \<and> round32 (mFuel l - mFuelConsumptionRate l * mThrustLevel l * deltaTime)
              = mFuel l - mFuelConsumptionRate l * mThrustLevel l * deltaTime"
  then show "mFuel (Lander_Update l deltaTime)
        = max 0 (mFuel l - mFuelConsumptionRate l * mThrustLevel l * deltaTime)"
    by (simp add: Lander_Update_fuel)
next
  assume a: "mThrustActive l \<and> 0 < mFuel l \<and> mFuel (Lander_Update l deltaTime) \<le> 0"
  with Lander_Update_out_of_fuel [of l deltaTime]
  show "\<not> mThrustActive (Lander_Update l deltaTime)"
    and "mThrustLevel (Lander_Update l deltaTime) = 0" by simp_all
next
  assume a: "round32 (mFuel l) = mFuel l
        \<and> 0 \<le> mFuel l \<and> 0 \<le> mThrustLevel l \<and> 0 \<le> mFuelConsumptionRate l
        \<and> (\<forall>dt \<in> set (deltaTimes @ deltaTimes'). 0 \<le> dt)"
  then have inv: "round32 (mFuel (Lander_Updates l deltaTimes)) = mFuel (Lander_Updates l deltaTimes)"
      "0 \<le> mFuel (Lander_Updates l deltaTimes)"
      "0 \<le> mThrustLevel (Lander_Updates l deltaTimes)"
      "0 \<le> mFuelConsumptionRate (Lander_Updates l deltaTimes)"
    using Lander_Updates_inv [of l deltaTimes] by simp_all
  show "0 \<le> mFuel (Lander_Updates l (deltaTimes @ deltaTimes'))"
    using a Lander_Updates_inv [of l "deltaTimes @ deltaTimes'"] by simp
  show "mFuel (Lander_Updates l (deltaTimes @ deltaTimes')) \<le> mFuel (Lander_Updates l deltaTimes)"
    using a Lander_Updates_fuel_le [OF inv, of deltaTimes']
    by (simp add: Lander_Updates_append)
  show "mFuel (Lander_Updates l deltaTimes) \<le> mFuel l"
    using a Lander_Updates_fuel_le [of l deltaTimes] by simp
next
  assume a: "mThrustActive l \<and> mThrustLevel l = 1/2 \<and> mFuelConsumptionRate l = 10
        \<and> 10 \<le> mFuel l \<and> round32 (mFuel l - 10) = mFuel l - 10"
  then have act: "mThrustActive l" and pos: "mFuel l > 0"
    and lv: "mThrustLevel l = 1/2" and rate: "mFuelConsumptionRate l = 10"
    and left: "round32 (mFuel l - 10) = mFuel l - 10" and ten: "10 \<le> mFuel l"
    by simp_all
  have "round32 (round32 (10 * (1/2)) * 2) = 10"
    by (simp add: round32_values)
  then show "mFuel (Lander_Update l 2) = mFuel l - 10"
    unfolding Lander_Update_fuel [OF act pos] lv rate
    using left ten by simp
qed

theorem Lander_Update_fuel_consumption_witness:
  "mFuel (Lander_Update (Lander_ApplyThrust (Lander_new 0) 1) (1/8)) = 3995 / 4
   \<and> \<not> mThrustActive (Lander_Update (Lander_ApplyThrust (Lander_new 0) 1) 200)
   \<and> mThrustLevel (Lander_Update (Lander_ApplyThrust (Lander_new 0) 1) 200) = 0
   \<and> 0 \<le> mFuel (Lander_Updates (Lander_ApplyThrust (Lander_new 0) 1) ([60, 30] @ [20]))
   \<and> mFuel (Lander_Updates (Lander_ApplyThrust (Lander_new 0) 1) ([60, 30] @ [20]))
        \<le> mFuel (Lander_Updates (Lander_ApplyThrust (Lander_new 0) 1) [60, 30])
   \<and> mFuel (Lander_Update (Lander_ApplyThrust (Lander_new 0) (1/2)) 2) = 990"
proof -
  let ?l = "Lander_ApplyThrust (Lander_new 0) 1"
  let ?h = "Lander_ApplyThrust (Lander_new 0) (1/2)"
  have l: "mThrustActive ?l" "mFuel ?l = 1000" "mThrustLevel ?l = 1" "mFuelConsumptionRate ?l = 10"
    by (simp_all add: Lander_ApplyThrust_def Lander_new_def Let_def)
  have h: "mThrustActive ?h" "mFuel ?h = 1000" "mThrustLevel ?h = 1/2" "mFuelConsumptionRate ?h = 10"
    by (simp_all add: Lander_ApplyThrust_def Lander_new_def Let_def)
  have z: "mFuel (Lander_Update ?l 200) \<le> 0"
    using l by (simp add: Lander_Update_fuel round32_values round32_minus_1000)
  show ?thesis
    using Lander_Update_fuel_consumption [of ?l "1/8" "[]" "[]"]
          Lander_Update_fuel_consumption [of ?l 200 "[60, 30]" "[20]"]
          Lander_Update_fuel_consumption [of ?h 0 "[]" "[]"]
          l h z
    by (simp add: round32_values)
qed

text \<open>
  The amounts of C5 as the claim states them fail in binary32. At level 0.5 and rate
  10 kg/s, an update of \<open>1 / 2 ^ 20\<close> s from 1000 kg leaves 1000 kg, not
  \<open>1000 - 5 / 2 ^ 20\<close>: the difference is below half the spacing \<open>1 / 2 ^ 14\<close> of the
  binary32 values near 1000. So \<open>2 ^ 21\<close> such updates, 2 s in total, consume nothing
  where the claim says 10 kg.
\<close>

theorem Lander_Update_exact_counterexample:
  "mThrustActive (Lander_ApplyThrust (Lander_new 0) (1/2))
   \<and> 0 < mFuel (Lander_ApplyThrust (Lander_new 0) (1/2))
   \<and> (0::real) \<le> 1 / 2 ^ 20
   \<and> mFuel (Lander_Update (Lander_ApplyThrust (Lander_new 0) (1/2)) (1 / 2 ^ 20))
       \<noteq> max 0 (mFuel (Lander_ApplyThrust (Lander_new 0) (1/2))
                  - mFuelConsumptionRate (Lander_ApplyThrust (Lander_new 0) (1/2))
                    * mThrustLevel (Lander_ApplyThrust (Lander_new 0) (1/2)) * (1 / 2 ^ 20))
   \<and> sum_list (replicate (2 ^ 21) (1 / 2 ^ 20 :: real)) = 2
   \<and> mFuel (Lander_Updates (Lander_ApplyThrust (Lander_new 0) (1/2))
              (replicate (2 ^ 21) (1 / 2 ^ 20)))
       \<noteq> mFuel (Lander_ApplyThrust (Lander_new 0) (1/2)) - 10"
proof -
  let ?h = "Lander_ApplyThrust (Lander_new 0) (1/2)"
  have h: "mThrustActive ?h" "mFuel ?h = 1000" "mThrustLevel ?h = 1/2" "mFuelConsumptionRate ?h = 10"
    by (simp_all add: Lander_ApplyThrust_def Lander_new_def Let_def)
  have c: "round32 (1000 - round32 (round32 (10 * (1/2)) * (1 / 2 ^ 20))) = 1000"
    by (simp add: round32_values)
  have pos: "mFuel ?h > 0"
    using h(2) by simp
  have f: "mFuel (Lander_Update ?h (1 / 2 ^ 20)) = 1000"
    unfolding Lander_Update_fuel [OF h(1) pos] h(2) h(3) h(4) c
    by simp
  have "Lander_Update ?h (1 / 2 ^ 20) = ?h\<lparr>mFuel := 1000\<rparr>"
    unfolding Lander_Update_def Let_def h(2) h(3) h(4)
    using h(1) c by simp
  also have "\<dots> = ?h"
    using h(2) by simp
  finally have fixed: "Lander_Update ?h (1 / 2 ^ 20) = ?h" .
  have s: "sum_list (replicate (2 ^ 21) (1 / 2 ^ 20 :: real)) = 2"
    by (simp add: sum_list_replicate)
  show ?thesis
    using h f s Lander_Updates_replicate_fixed [OF fixed, of "2 ^ 21"]
    by simp
qed

section \<open>Properties of the 3D landing test\<close>

lemma landingScan3D_iff:
  "landingScan3D pos v tris \<longleftrightarrow>
     (\<exists>tri \<in> set tris. isLandingPadTri tri \<and> inTriangleBounds tri (idx0 pos) (idx2 pos))
       \<and> \<bar>idx0 v\<bar> \<le> 2 \<and> 0 \<le> idx1 v \<and> idx1 v \<le> 2 \<and> \<bar>idx2 v\<bar> \<le> 2"
  by (induction tris) (auto simp: Let_def)

text \<open>
  C7. \<^verbatim>\<open>IsValidLanding3D\<close> on a lander returns true exactly when the bounding box in
  \<open>(x, z)\<close> of some landing-pad triangle holds the lander's \<open>(x, z)\<close> and the velocity
  satisfies \<open>|v\<^sub>x| \<le> 2\<close>, \<open>0 \<le> v\<^sub>y \<le> 2\<close> and \<open>|v\<^sub>z| \<le> 2\<close>.
\<close>

theorem IsValidLanding3D_iff:
  "IsValidLanding3D t (Some l) =
     Inr ((\<exists>tri \<in> set (mTriangles3D t).
             isLandingPadTri tri
           \<and> min (vtx0 (vertices tri)) (min (vtx3 (vertices tri)) (vtx6 (vertices tri)))
                \<le> idx0 (mPosition l)
           \<and> idx0 (mPosition l)
                \<le> max (vtx0 (vertices tri)) (max (vtx3 (vertices tri)) (vtx6 (vertices tri)))
           \<and> min (vtx2 (vertices tri)) (min (vtx5 (vertices tri)) (vtx8 (vertices tri)))
                \<le> idx2 (mPosition l)
           \<and> idx2 (mPosition l)
                \<le> max (vtx2 (vertices tri)) (max (vtx5 (vertices tri)) (vtx8 (vertices tri))))
          \<and> \<bar>idx0 (mVelocity l)\<bar> \<le> 2
          \<and> 0 \<le> idx1 (mVelocity l) \<and> idx1 (mVelocity l) \<le> 2
          \<and> \<bar>idx2 (mVelocity l)\<bar> \<le> 2)"
  by (simp add: IsValidLanding3D_def landingScan3D_iff inTriangleBounds_def Let_def)

theorem IsValidLanding3D_iff_witness:
  "IsValidLanding3D scenarioTerrain3D
      (Some ((SetPosition (Lander_new 0) 3 2 1)\<lparr>mVelocity := \<lparr>idx0 = 1, idx1 = 1, idx2 = -2\<rparr>\<rparr>))
     = Inr True
   \<and> IsValidLanding3D scenarioTerrain3D
      (Some ((SetPosition (Lander_new 0) 3 2 1)\<lparr>mVelocity := \<lparr>idx0 = 0, idx1 = -1, idx2 = 0\<rparr>\<rparr>))
     = Inr False
   \<and> IsValidLanding3D scenarioTerrain3D
      (Some ((SetPosition (Lander_new 0) 1 2 1)\<lparr>mVelocity := \<lparr>idx0 = 0, idx1 = 1, idx2 = 0\<rparr>\<rparr>))
     = Inr False"
  using IsValidLanding3D_iff [of scenarioTerrain3D
          "(SetPosition (Lander_new 0) 3 2 1)\<lparr>mVelocity := \<lparr>idx0 = 1, idx1 = 1, idx2 = -2\<rparr>\<rparr>"]
        IsValidLanding3D_iff [of scenarioTerrain3D
          "(SetPosition (Lander_new 0) 3 2 1)\<lparr>mVelocity := \<lparr>idx0 = 0, idx1 = -1, idx2 = 0\<rparr>\<rparr>"]
        IsValidLanding3D_iff [of scenarioTerrain3D
          "(SetPosition (Lander_new 0) 1 2 1)\<lparr>mVelocity := \<lparr>idx0 = 0, idx1 = 1, idx2 = 0\<rparr>\<rparr>"]
  by (simp add: scenarioTerrain3D_def scenario_defs)

section \<open>Properties of the thrust of the physics engine\<close>

lemma Lander_ApplyThrust_fuel: "mFuel (Lander_ApplyThrust l amount) = mFuel l"
  by (simp add: Lander_ApplyThrust_def Let_def)

lemma Lander_ApplyThrust_zero:
  "mFuel l > 0 \<Longrightarrow> Lander_ApplyThrust l 0 = l\<lparr>mThrustLevel := 0, mThrustActive := False\<rparr>"
  by (simp add: Lander_ApplyThrust_def Let_def)

lemma CheckCollisions2D_fuel:
  "map_option mFuel (mLander (snd (CheckCollisions2D p))) = map_option mFuel (mLander p)"
  by (auto simp: CheckCollisions2D_def Let_def SetPosition_def
      split: option.splits prod.splits bool.splits)

lemma integrate2D_fuel: "mFuel (integrate2D p l d) = mFuel l"
  by (simp add: integrate2D_def Let_def SetPosition_def)

lemma Update2D_fuel:
  "map_option mFuel (mLander (Update2D p dt)) = map_option mFuel (mLander p)"
  by (cases "mLander p"; cases "mTerrain p")
     (simp_all add: Update2D_def Let_def CheckCollisions2D_fuel integrate2D_fuel)

text \<open>
  C10. \<^verbatim>\<open>Physics::ApplyThrust\<close> never changes the fuel of the lander. The lander comes
  back as it was, except in the step where the rigid body exists, the thrust is active,
  the fuel is positive and the computed remaining fuel
  \<open>max 0 (fuel - 10 \<times> thrustLevel \<times> deltaTime)\<close> is 0: there the thrust level becomes 0
  and the thrust inactive. \<^verbatim>\<open>Lander::ApplyThrust\<close>, \<^verbatim>\<open>Update2D\<close>,
  \<^verbatim>\<open>CheckCollisions2D\<close> and \<^verbatim>\<open>Update\<close> in 2D mode keep the fuel as well, so that the
  fuel goes down in \<^verbatim>\<open>Lander::Update\<close> only.
\<close>

theorem Physics_ApplyThrust_keeps_fuel:
  "snd (Physics_ApplyThrust applyCentralForce rotateUp p None deltaTime) = None
   \<and> snd (Physics_ApplyThrust applyCentralForce rotateUp p (Some l) deltaTime)
       = Some (if mLanderRigidBody p \<noteq> None \<and> mThrustActive l \<and> mFuel l > 0
                  \<and> max 0 (mFuel l - 10 * mThrustLevel l * deltaTime) \<le> 0
               then l\<lparr>mThrustLevel := 0, mThrustActive := False\<rparr>
               else l)
   \<and> map_option mFuel (snd (Physics_ApplyThrust applyCentralForce rotateUp p (Some l) deltaTime))
       = Some (mFuel l)
   \<and> mFuel (Lander_ApplyThrust l amount) = mFuel l
   \<and> map_option mFuel (mLander (Update2D p deltaTime)) = map_option mFuel (mLander p)
   \<and> map_option mFuel (mLander (snd (CheckCollisions2D p))) = map_option mFuel (mLander p)
   \<and> (\<not> m3DMode p \<longrightarrow>
        map_option mFuel (mLander (Physics_Update step3D p deltaTime))
          = map_option mFuel (mLander p))"
proof -
  have r: "snd (Physics_ApplyThrust applyCentralForce rotateUp p (Some l) deltaTime)
       = Some (if mLanderRigidBody p \<noteq> None \<and> mThrustActive l \<and> mFuel l > 0
                  \<and> max 0 (mFuel l - 10 * mThrustLevel l * deltaTime) \<le> 0
               then l\<lparr>mThrustLevel := 0, mThrustActive := False\<rparr>
               else l)"
    by (cases "mLanderRigidBody p")
       (simp_all add: Physics_ApplyThrust_def Let_def Lander_ApplyThrust_zero)
  have n: "snd (Physics_ApplyThrust applyCentralForce rotateUp p None deltaTime) = None"
    by (simp add: Physics_ApplyThrust_def)
  have f: "map_option mFuel (snd (Physics_ApplyThrust applyCentralForce rotateUp p (Some l) deltaTime))
       = Some (mFuel l)"
    unfolding r by simp
  have u: "\<not> m3DMode p \<longrightarrow>
        map_option mFuel (mLander (Physics_Update step3D p deltaTime))
          = map_option mFuel (mLander p)"
    by (simp add: Physics_Update_def Let_def Update2D_fuel)
  show ?thesis
    using r n f u Lander_ApplyThrust_fuel [of l amount] Update2D_fuel [of p deltaTime]
      CheckCollisions2D_fuel [of p]
    by blast
qed

theorem Physics_ApplyThrust_keeps_fuel_witness:
  "snd (Physics_ApplyThrust (\<lambda>rb f. rb) (\<lambda>z y x. \<lparr>idx0 = 0, idx1 = 1, idx2 = 0\<rparr>)
          ((Physics_new :: unit Physics)\<lparr>mLanderRigidBody := Some ()\<rparr>)
          (Some (Lander_ApplyThrust (Lander_new 0) 1)) 200)
     = Some (Lander_new 0)
   \<and> snd (Physics_ApplyThrust (\<lambda>rb f. rb) (\<lambda>z y x. \<lparr>idx0 = 0, idx1 = 1, idx2 = 0\<rparr>)
          ((Physics_new :: unit Physics)\<lparr>mLanderRigidBody := Some ()\<rparr>)
          (Some (Lander_ApplyThrust (Lander_new 0) 1)) 1)
     = Some (Lander_ApplyThrust (Lander_new 0) 1)
   \<and> map_option mFuel (mLander (Physics_Update (\<lambda>p d. p)
          (scenarioPhysics (scenarioLander 5 20 0 0)) (1/10))) = Some 1000"
  using Physics_ApplyThrust_keeps_fuel
          [of "\<lambda>rb f. rb" "\<lambda>z y x. \<lparr>idx0 = 0, idx1 = 1, idx2 = 0\<rparr>"
              "(Physics_new :: unit Physics)\<lparr>mLanderRigidBody := Some ()\<rparr>" 200
              "Lander_ApplyThrust (Lander_new 0) 1" 0 "\<lambda>p d. p"]
        Physics_ApplyThrust_keeps_fuel
          [of "\<lambda>rb f. rb" "\<lambda>z y x. \<lparr>idx0 = 0, idx1 = 1, idx2 = 0\<rparr>"
              "(Physics_new :: unit Physics)\<lparr>mLanderRigidBody := Some ()\<rparr>" 1
              "Lander_ApplyThrust (Lander_new 0) 1" 0 "\<lambda>p d. p"]
        Physics_ApplyThrust_keeps_fuel
          [of "\<lambda>rb f. rb" "\<lambda>z y x. \<lparr>idx0 = 0, idx1 = 1, idx2 = 0\<rparr>"
              "scenarioPhysics (scenarioLander 5 20 0 0)" "1/10"
              "Lander_ApplyThrust (Lander_new 0) 1" 0 "\<lambda>p d. p"]
  by (simp add: Lander_ApplyThrust_def Lander_new_def Let_def Physics_new_def
        scenarioPhysics_def scenarioLander_def SetPosition_def)

section \<open>Properties of the time scale\<close>









section \<open>Where the code departs from its specification\<close>

lemma list_update_Cons_numeral:
  "(x # xs)[numeral k := y] = x # xs[pred_numeral k := y]"
  by (simp add: numeral_eq_Suc)

text \<open>
  C6. \<^verbatim>\<open>Generate2D(800, 600)\<close>, the call of the driver, for any values of \<^verbatim>\<open>rand()\<close>:
  the ten segments are 80 pixels wide and the landing pad is the three segments 4, 5
  and 6, from 320 to 560. The pad is 240 pixels wide, three times the width of a
  segment and not two, and its middle is at 440, not at the midpoint 400: the loop
  \<^verbatim>\<open>for (i = startSegment; i <= endSegment ...)\<close> takes the segment that starts where
  the pad of width \<^verbatim>\<open>landingPadWidth\<close> ends.
\<close>

theorem Generate2D_800_600_pad:
  "map_sum id (\<lambda>t'. map (\<lambda>s. (x1 s, x2 s, isLandingPad s)) (mSegments2D t'))
      (Generate2D t 800 600 rnd)
   = Inr [(0, 80, False), (80, 160, False), (160, 240, False), (240, 320, False),
          (320, 400, True), (400, 480, True), (480, 560, True),
          (560, 640, False), (640, 720, False), (720, 800, False)]"
  by (simp add: Generate2D_def cdiv_def Let_def list_update_Cons_numeral)

text \<open>
  C8. \<^verbatim>\<open>CheckCollision3D\<close> and \<^verbatim>\<open>IsValidLanding3D\<close> dereference a null lander, where
  \<^verbatim>\<open>CheckCollision2D\<close> and \<^verbatim>\<open>IsValidLanding2D\<close> return false and \<^verbatim>\<open>Update2D\<close>
  returns at once with nothing changed.
\<close>

theorem null_lander_3D:
  "CheckCollision3D t None c = Inl NullPointerDereference
   \<and> IsValidLanding3D t None = Inl NullPointerDereference
   \<and> CheckCollision2D t None c = (False, c)
   \<and> IsValidLanding2D t None = False
   \<and> Update2D (p\<lparr>mLander := None\<rparr>) deltaTime = p\<lparr>mLander := None\<rparr>
   \<and> Update2D (p\<lparr>mTerrain := None\<rparr>) deltaTime = p\<lparr>mTerrain := None\<rparr>"
  by (simp add: CheckCollision3D_def IsValidLanding3D_def CheckCollision2D_def
        IsValidLanding2D_def Update2D_def split: option.splits)

end
